theory Spec2Isabelle
  imports Main "HOL-Library.Sublist" "HOL-Library.Code_Target_Nat"
begin

section \<open>JavaScript strings\<close>

text \<open>
  A JavaScript string is a sequence of UTF-16 code units. Indices, \<open>slice\<close>,
  \<open>indexOf\<close> and the regular expressions of the source all count code units, so a
  string is modelled as the list of its code units. ASCII literals of the source are
  written \<open>js ''...''\<close>; the em dash is code unit 8212 and the en dash 8211.
\<close>

type_synonym jsstring = "nat list"

definition js :: "string \<Rightarrow> jsstring" where
  "js s = map of_char s"

definition emDash :: nat where "emDash = 8212"
definition enDash :: nat where "enDash = 8211"

text \<open>Relative indices: \<open>indexOf\<close> and \<open>lastIndexOf\<close> clamp a position into
  \<open>0..length\<close>; \<open>slice\<close> counts a negative index from the end.\<close>

definition clampIndex :: "int \<Rightarrow> nat \<Rightarrow> nat" where
  "clampIndex i len = (if i < 0 then 0 else min (nat i) len)"

definition sliceIndex :: "int \<Rightarrow> nat \<Rightarrow> nat" where
  "sliceIndex i len = (if i < 0 then nat (max (int len + i) 0) else min (nat i) len)"

definition slice :: "jsstring \<Rightarrow> int \<Rightarrow> int \<Rightarrow> jsstring" where
  "slice s a b =
     (let len = length s; from = sliceIndex a len; to = sliceIndex b len
      in take (to - from) (drop from s))"

definition sliceFrom :: "jsstring \<Rightarrow> int \<Rightarrow> jsstring" where
  "sliceFrom s a = drop (sliceIndex a (length s)) s"

text \<open>\<open>firstIndex pat r k\<close>: the first index at or after \<open>k\<close> where \<open>pat\<close> occurs,
  \<open>r\<close> being the string from index \<open>k\<close> on; \<open>-1\<close> when there is none.\<close>

fun firstIndex :: "jsstring \<Rightarrow> jsstring \<Rightarrow> nat \<Rightarrow> int" where
  "firstIndex pat [] k = (if pat = [] then int k else - 1)"
| "firstIndex pat (x # xs) k =
     (if prefix pat (x # xs) then int k else firstIndex pat xs (Suc k))"

definition indexOf :: "jsstring \<Rightarrow> jsstring \<Rightarrow> int \<Rightarrow> int" where
  "indexOf s pat pos =
     (let start = clampIndex pos (length s) in firstIndex pat (drop start s) start)"

text \<open>\<open>lastIndexDown s pat k\<close>: the largest index at most \<open>k\<close> where \<open>pat\<close> occurs
  in \<open>s\<close>; \<open>-1\<close> when there is none.\<close>

fun lastIndexDown :: "jsstring \<Rightarrow> jsstring \<Rightarrow> nat \<Rightarrow> int" where
  "lastIndexDown s pat 0 = (if prefix pat s then 0 else - 1)"
| "lastIndexDown s pat (Suc k) =
     (if prefix pat (drop (Suc k) s) then int (Suc k) else lastIndexDown s pat k)"

text \<open>\<open>s.lastIndexOf(pat, pos)\<close>; \<open>None\<close> is the call without a position, which
  searches from the end.\<close>

definition lastIndexOf :: "jsstring \<Rightarrow> jsstring \<Rightarrow> int option \<Rightarrow> int" where
  "lastIndexOf s pat pos =
     (let len = length s;
          start = (case pos of None \<Rightarrow> len | Some p \<Rightarrow> clampIndex p len)
      in lastIndexDown s pat (min start (len - length pat)))"

definition startsWith :: "jsstring \<Rightarrow> jsstring \<Rightarrow> bool" where
  "startsWith s pat = prefix pat s"

text \<open>White space and line terminators of ECMAScript: what \<open>trim\<close> removes and what
  the class \<open>\s\<close> of a regular expression matches.\<close>

definition isWhiteSpace :: "nat \<Rightarrow> bool" where
  "isWhiteSpace c =
     (c = 9 \<or> c = 10 \<or> c = 11 \<or> c = 12 \<or> c = 13 \<or> c = 32 \<or> c = 160 \<or> c = 5760
      \<or> (8192 \<le> c \<and> c \<le> 8202) \<or> c = 8232 \<or> c = 8233 \<or> c = 8239 \<or> c = 8287
      \<or> c = 12288 \<or> c = 65279)"

definition trim :: "jsstring \<Rightarrow> jsstring" where
  "trim s = rev (dropWhile isWhiteSpace (rev (dropWhile isWhiteSpace s)))"

text \<open>Case mapping. On a string of ASCII code units \<open>toUpperCase\<close> and
  \<open>toLowerCase\<close> map the letters \<open>a..z\<close> and \<open>A..Z\<close> and keep the rest; on any other
  string the result depends on the Unicode case tables of the JavaScript engine, which
  are a parameter of the model.\<close>

record runtime =
  unicodeUpper :: "jsstring \<Rightarrow> jsstring"
  unicodeLower :: "jsstring \<Rightarrow> jsstring"
  isoDate :: jsstring

definition upperAscii :: "nat \<Rightarrow> nat" where
  "upperAscii c = (if 97 \<le> c \<and> c \<le> 122 then c - 32 else c)"

definition lowerAscii :: "nat \<Rightarrow> nat" where
  "lowerAscii c = (if 65 \<le> c \<and> c \<le> 90 then c + 32 else c)"

definition toUpperCase :: "runtime \<Rightarrow> jsstring \<Rightarrow> jsstring" where
  "toUpperCase rt s =
     (if list_all (\<lambda>c. c < 128) s then map upperAscii s else unicodeUpper rt s)"

definition toLowerCase :: "runtime \<Rightarrow> jsstring \<Rightarrow> jsstring" where
  "toLowerCase rt s =
     (if list_all (\<lambda>c. c < 128) s then map lowerAscii s else unicodeLower rt s)"

text \<open>The decimal numeral of a number, as a template literal prints it.\<close>

fun digits :: "nat \<Rightarrow> nat \<Rightarrow> jsstring" where
  "digits 0 n = []"
| "digits (Suc fuel) n =
     (if n < 10 then [48 + n] else digits fuel (n div 10) @ [48 + n mod 10])"

definition numberToString :: "nat \<Rightarrow> jsstring" where
  "numberToString n = digits (Suc n) n"

section \<open>Regular expressions\<close>

text \<open>
  The regular expressions of the source are sequences of literals, character classes,
  greedy and lazy repetitions of one class, capture groups and the assertions
  \<open>\b\<close>, \<open>^\<close> and \<open>$\<close>, with alternation at the top only. \<open>matchAtoms\<close> is
  the backtracking matcher of ECMAScript on these: a greedy repetition takes one more
  code unit before it tries the rest, a lazy one tries the rest first.
\<close>

datatype atom =
    Ch "nat \<Rightarrow> bool"
  | Star "nat \<Rightarrow> bool"
  | Lazy "nat \<Rightarrow> bool"
  | Open nat
  | Close nat
  | WordB
  | Bol
  | Eol

type_synonym regex = "atom list list"
type_synonym captures = "nat \<rightharpoonup> nat \<times> nat"

definition isWordChar :: "nat \<Rightarrow> bool" where
  "isWordChar c =
     ((97 \<le> c \<and> c \<le> 122) \<or> (65 \<le> c \<and> c \<le> 90) \<or> (48 \<le> c \<and> c \<le> 57) \<or> c = 95)"

definition atWordBoundary :: "nat option \<Rightarrow> jsstring \<Rightarrow> bool" where
  "atWordBoundary pv r =
     ((case pv of None \<Rightarrow> False | Some c \<Rightarrow> isWordChar c)
      \<noteq> (case r of [] \<Rightarrow> False | x # _ \<Rightarrow> isWordChar x))"

definition closeGroup :: "captures \<Rightarrow> nat \<Rightarrow> nat \<Rightarrow> captures" where
  "closeGroup cs n p =
     (case cs n of None \<Rightarrow> cs(n \<mapsto> (p, p)) | Some (s, e) \<Rightarrow> cs(n \<mapsto> (s, p)))"

text \<open>\<open>matchAtoms as p pv r cs\<close> matches at index \<open>p\<close>, where \<open>pv\<close> is the code unit
  before \<open>p\<close> and \<open>r\<close> the string from \<open>p\<close> on; the result is the end index and the
  captures.\<close>

fun matchAtoms ::
  "atom list \<Rightarrow> nat \<Rightarrow> nat option \<Rightarrow> jsstring \<Rightarrow> captures \<Rightarrow> (nat \<times> captures) option"
where
  "matchAtoms [] p pv r cs = Some (p, cs)"
| "matchAtoms (Ch c # as) p pv [] cs = None"
| "matchAtoms (Ch c # as) p pv (x # xs) cs =
     (if c x then matchAtoms as (Suc p) (Some x) xs cs else None)"
| "matchAtoms (Star c # as) p pv [] cs = matchAtoms as p pv [] cs"
| "matchAtoms (Star c # as) p pv (x # xs) cs =
     (if c x
      then (case matchAtoms (Star c # as) (Suc p) (Some x) xs cs of
              Some res \<Rightarrow> Some res
            | None \<Rightarrow> matchAtoms as p pv (x # xs) cs)
      else matchAtoms as p pv (x # xs) cs)"
| "matchAtoms (Lazy c # as) p pv [] cs = matchAtoms as p pv [] cs"
| "matchAtoms (Lazy c # as) p pv (x # xs) cs =
     (case matchAtoms as p pv (x # xs) cs of
        Some res \<Rightarrow> Some res
      | None \<Rightarrow> (if c x then matchAtoms (Lazy c # as) (Suc p) (Some x) xs cs else None))"
| "matchAtoms (Open n # as) p pv r cs = matchAtoms as p pv r (cs(n \<mapsto> (p, p)))"
| "matchAtoms (Close n # as) p pv r cs = matchAtoms as p pv r (closeGroup cs n p)"
| "matchAtoms (WordB # as) p pv r cs =
     (if atWordBoundary pv r then matchAtoms as p pv r cs else None)"
| "matchAtoms (Bol # as) p pv r cs = (if p = 0 then matchAtoms as p pv r cs else None)"
| "matchAtoms (Eol # as) p pv r cs = (if r = [] then matchAtoms as p pv r cs else None)"

text \<open>Alternatives are tried in order at one index.\<close>

fun matchAt :: "regex \<Rightarrow> nat \<Rightarrow> nat option \<Rightarrow> jsstring \<Rightarrow> (nat \<times> captures) option" where
  "matchAt [] p pv r = None"
| "matchAt (a # alts) p pv r =
     (case matchAtoms a p pv r Map.empty of
        Some res \<Rightarrow> Some res
      | None \<Rightarrow> matchAt alts p pv r)"

text \<open>\<open>searchFrom\<close> is \<open>exec\<close> without the sticky flag: the leftmost index with a
  match, its end and its captures.\<close>

fun searchFrom ::
  "regex \<Rightarrow> nat \<Rightarrow> nat option \<Rightarrow> jsstring \<Rightarrow> (nat \<times> nat \<times> captures) option"
where
  "searchFrom re p pv [] =
     (case matchAt re p pv [] of None \<Rightarrow> None | Some (e, cs) \<Rightarrow> Some (p, e, cs))"
| "searchFrom re p pv (x # xs) =
     (case matchAt re p pv (x # xs) of
        Some (e, cs) \<Rightarrow> Some (p, e, cs)
      | None \<Rightarrow> searchFrom re (Suc p) (Some x) xs)"

definition regexExec :: "regex \<Rightarrow> jsstring \<Rightarrow> (nat \<times> nat \<times> captures) option" where
  "regexExec re s = searchFrom re 0 None s"

definition regexTest :: "regex \<Rightarrow> jsstring \<Rightarrow> bool" where
  "regexTest re s = (regexExec re s \<noteq> None)"

definition regexSearch :: "regex \<Rightarrow> jsstring \<Rightarrow> int" where
  "regexSearch re s = (case regexExec re s of None \<Rightarrow> - 1 | Some (b, e, cs) \<Rightarrow> int b)"

text \<open>The text of capture group \<open>n\<close> of a match in \<open>s\<close>; \<open>None\<close> is
  \<open>undefined\<close>.\<close>

definition group :: "jsstring \<Rightarrow> captures \<Rightarrow> nat \<Rightarrow> jsstring option" where
  "group s cs n = (case cs n of None \<Rightarrow> None | Some (b, e) \<Rightarrow> Some (take (e - b) (drop b s)))"

text \<open>\<open>s.replace(re, rep)\<close> for a global \<open>re\<close> and a replacement without \<open>$\<close>:
  \<open>skip\<close> counts the code units of the current match still to drop.\<close>

fun replaceGo ::
  "regex \<Rightarrow> jsstring \<Rightarrow> nat \<Rightarrow> nat \<Rightarrow> nat option \<Rightarrow> jsstring \<Rightarrow> jsstring"
where
  "replaceGo re rep skip p pv [] =
     (if skip = 0 \<and> matchAt re p pv [] \<noteq> None then rep else [])"
| "replaceGo re rep skip p pv (x # xs) =
     (if 0 < skip then replaceGo re rep (skip - 1) (Suc p) (Some x) xs
      else (case matchAt re p pv (x # xs) of
              None \<Rightarrow> x # replaceGo re rep 0 (Suc p) (Some x) xs
            | Some (e, cs) \<Rightarrow>
                if e = p then rep @ x # replaceGo re rep 0 (Suc p) (Some x) xs
                else rep @ replaceGo re rep (e - p - 1) (Suc p) (Some x) xs))"

definition replaceAll :: "regex \<Rightarrow> jsstring \<Rightarrow> jsstring \<Rightarrow> jsstring" where
  "replaceAll re rep s = replaceGo re rep 0 0 None s"

text \<open>\<open>s.replace(re, rep)\<close> for a \<open>re\<close> without the global flag: the first match
  only.\<close>

definition replaceFirst :: "regex \<Rightarrow> jsstring \<Rightarrow> jsstring \<Rightarrow> jsstring" where
  "replaceFirst re rep s =
     (case regexExec re s of
        None \<Rightarrow> s
      | Some (b, e, cs) \<Rightarrow> take b s @ rep @ drop e s)"

text \<open>\<open>s.split(re)\<close>: \<open>cur\<close> is the piece since the last separator. A match is
  tried at every index before the end; an empty match where the piece begins only
  advances.\<close>

fun splitGo ::
  "regex \<Rightarrow> jsstring \<Rightarrow> nat \<Rightarrow> nat \<Rightarrow> nat option \<Rightarrow> jsstring \<Rightarrow> jsstring list"
where
  "splitGo re cur skip q pv [] = [cur]"
| "splitGo re cur skip q pv (x # xs) =
     (if 0 < skip then splitGo re [] (skip - 1) (Suc q) (Some x) xs
      else (case matchAt re q pv (x # xs) of
              None \<Rightarrow> splitGo re (cur @ [x]) 0 (Suc q) (Some x) xs
            | Some (e, cs) \<Rightarrow>
                if e = q then
                  (if cur = [] then splitGo re [x] 0 (Suc q) (Some x) xs
                   else cur # splitGo re [x] 0 (Suc q) (Some x) xs)
                else cur # splitGo re [] (e - q - 1) (Suc q) (Some x) xs))"

definition split :: "regex \<Rightarrow> jsstring \<Rightarrow> jsstring list" where
  "split re s =
     (if s = [] then (if matchAt re 0 None [] \<noteq> None then [] else [[]])
      else splitGo re [] 0 0 None s)"

text \<open>Building blocks of the patterns: a literal, a literal under the flag \<open>i\<close>
  (for ASCII letters the flag compares code units up to ASCII case) and the classes.\<close>

definition lit :: "string \<Rightarrow> atom list" where
  "lit s = map (\<lambda>c. Ch (\<lambda>x. x = of_char c)) s"

definition liti :: "string \<Rightarrow> atom list" where
  "liti s = map (\<lambda>c. Ch (\<lambda>x. lowerAscii x = lowerAscii (of_char c))) s"

definition anyChar :: "nat \<Rightarrow> bool" where
  "anyChar c = True"

definition isLineTerminator :: "nat \<Rightarrow> bool" where
  "isLineTerminator c = (c = 10 \<or> c = 13 \<or> c = 8232 \<or> c = 8233)"

definition dot :: "nat \<Rightarrow> bool" where
  "dot c = (\<not> isLineTerminator c)"

definition isDash :: "nat \<Rightarrow> bool" where
  "isDash c = (c = emDash \<or> c = enDash)"

definition notChar :: "char \<Rightarrow> nat \<Rightarrow> bool" where
  "notChar k c = (c \<noteq> of_char k)"

definition isChar :: "char \<Rightarrow> nat \<Rightarrow> bool" where
  "isChar k c = (c = of_char k)"

definition isDigit :: "nat \<Rightarrow> bool" where
  "isDigit c = (48 \<le> c \<and> c \<le> 57)"

definition isHexDigit :: "nat \<Rightarrow> bool" where
  "isHexDigit c = (isDigit c \<or> (65 \<le> c \<and> c \<le> 70) \<or> (97 \<le> c \<and> c \<le> 102))"

section \<open>Markup helpers\<close>

text \<open>The style identifiers of one template, and the compiled-in defaults.\<close>

record styles =
  h1 :: jsstring
  h2 :: jsstring
  body :: jsstring
  bullet :: jsstring
  tableHeader :: jsstring
  tableText :: jsstring
  tableGrid :: jsstring
  fill :: jsstring

definition DEFAULT_STYLES :: styles where
  "DEFAULT_STYLES =
     \<lparr> h1 = js ''Heading1'', h2 = js ''Heading2'', body = js ''BodyText'',
       bullet = js ''ListBullet'', tableHeader = js ''TableHeader'',
       tableText = js ''TableText'', tableGrid = js ''TableGrid'', fill = js ''0073E6'' \<rparr>"

text \<open>\<open>xmlEsc\<close>: four global replacements, the ampersand first.\<close>

definition xmlEsc :: "jsstring \<Rightarrow> jsstring" where
  \<open>xmlEsc s =
     replaceAll [lit ''"''] (js ''&quot;'')
       (replaceAll [lit ''>''] (js ''&gt;'')
         (replaceAll [lit ''<''] (js ''&lt;'')
           (replaceAll [lit ''&''] (js ''&amp;'') s)))\<close>

definition styledPara :: "jsstring \<Rightarrow> jsstring \<Rightarrow> jsstring" where
  \<open>styledPara style text =
     js ''<w:p><w:pPr><w:pStyle w:val="'' @ style
     @ js ''"/></w:pPr><w:r><w:t xml:space="preserve">'' @ xmlEsc text
     @ js ''</w:t></w:r></w:p>''\<close>

definition xmlH1 :: "jsstring \<Rightarrow> styles \<Rightarrow> jsstring" where
  "xmlH1 text st = styledPara (h1 st) text"

definition xmlH2 :: "jsstring \<Rightarrow> styles \<Rightarrow> jsstring" where
  "xmlH2 text st = styledPara (h2 st) text"

definition xmlBody :: "jsstring \<Rightarrow> styles \<Rightarrow> jsstring" where
  "xmlBody text st = styledPara (body st) text"

definition xmlBullet :: "jsstring \<Rightarrow> styles \<Rightarrow> jsstring" where
  "xmlBullet text st = styledPara (bullet st) text"

definition xmlSpacer :: "styles \<Rightarrow> jsstring" where
  \<open>xmlSpacer st = js ''<w:p><w:pPr><w:pStyle w:val="'' @ body st @ js ''"/></w:pPr></w:p>''\<close>

text \<open>What a call of the source can throw: a \<open>TypeError\<close> on reading a property of
  \<open>undefined\<close>, and the rejection of the archive library on bytes that are no archive.\<close>

datatype error = TypeError | ArchiveError

record col =
  label :: jsstring
  w :: nat

definition hdrCell :: "styles \<Rightarrow> col \<Rightarrow> jsstring" where
  \<open>hdrCell st c =
     js ''<w:tc><w:tcPr><w:tcW w:w="'' @ numberToString (w c)
     @ js ''" w:type="dxa"/><w:shd w:val="clear" w:color="auto" w:fill="'' @ fill st
     @ js ''"/></w:tcPr>''
     @ js ''<w:p><w:pPr><w:pStyle w:val="'' @ tableHeader st
     @ js ''"/></w:pPr><w:r><w:t xml:space="preserve">'' @ xmlEsc (label c)
     @ js ''</w:t></w:r></w:p></w:tc>''\<close>

definition dataCell :: "styles \<Rightarrow> col \<Rightarrow> jsstring \<Rightarrow> jsstring" where
  \<open>dataCell st c cell =
     js ''<w:tc><w:tcPr><w:tcW w:w="'' @ numberToString (w c) @ js ''" w:type="dxa"/></w:tcPr>''
     @ js ''<w:p><w:pPr><w:pStyle w:val="'' @ tableText st
     @ js ''"/></w:pPr><w:r><w:t xml:space="preserve">'' @ xmlEsc cell
     @ js ''</w:t></w:r></w:p></w:tc>''\<close>

text \<open>The cells of one data row: cell \<open>i\<close> reads \<open>cols[i].w\<close>, which throws when
  the row is longer than the column list.\<close>

fun cellsXml :: "col list \<Rightarrow> styles \<Rightarrow> nat \<Rightarrow> jsstring list \<Rightarrow> error + jsstring" where
  "cellsXml cols st i [] = Inr []"
| "cellsXml cols st i (cell # cells) =
     (if i < length cols
      then (case cellsXml cols st (Suc i) cells of
              Inl e \<Rightarrow> Inl e
            | Inr rest \<Rightarrow> Inr (dataCell st (cols ! i) cell @ rest))
      else Inl TypeError)"

definition rowXml :: "col list \<Rightarrow> styles \<Rightarrow> jsstring list \<Rightarrow> error + jsstring" where
  "rowXml cols st row =
     (case cellsXml cols st 0 row of
        Inl e \<Rightarrow> Inl e
      | Inr cells \<Rightarrow> Inr (js ''<w:tr>'' @ cells @ js ''</w:tr>''))"

fun dataRowsXml :: "col list \<Rightarrow> styles \<Rightarrow> jsstring list list \<Rightarrow> error + jsstring" where
  "dataRowsXml cols st [] = Inr []"
| "dataRowsXml cols st (row # rows) =
     (case rowXml cols st row of
        Inl e \<Rightarrow> Inl e
      | Inr r \<Rightarrow> (case dataRowsXml cols st rows of
                    Inl e \<Rightarrow> Inl e
                  | Inr rest \<Rightarrow> Inr (r @ rest)))"

definition tableOpen :: "col list \<Rightarrow> styles \<Rightarrow> jsstring" where
  \<open>tableOpen cols st =
     js ''<w:tbl><w:tblPr><w:tblStyle w:val="'' @ tableGrid st
     @ js ''"/><w:tblW w:w="'' @ numberToString (sum_list (map w cols))
     @ js ''" w:type="dxa"/>''
     @ js ''<w:tblLook w:val="04A0" w:firstRow="1"/></w:tblPr>''
     @ js ''<w:tblGrid>''
     @ concat (map (\<lambda>c. js ''<w:gridCol w:w="'' @ numberToString (w c) @ js ''"/>'') cols)
     @ js ''</w:tblGrid>''
     @ js ''<w:tr>'' @ concat (map (hdrCell st) cols) @ js ''</w:tr>''\<close>

definition xmlTable3 :: "col list \<Rightarrow> jsstring list list \<Rightarrow> styles \<Rightarrow> error + jsstring" where
  "xmlTable3 cols rows st =
     (case dataRowsXml cols st rows of
        Inl e \<Rightarrow> Inl e
      | Inr dataRows \<Rightarrow> Inr (tableOpen cols st @ dataRows @ js ''</w:tbl>''))"

section \<open>Parsing findings\<close>

text \<open>\<open>a || b\<close> on strings, where \<open>None\<close> is \<open>undefined\<close>: the empty string and
  \<open>undefined\<close> are falsy.\<close>

definition orElse :: "jsstring option \<Rightarrow> jsstring \<Rightarrow> jsstring" where
  "orElse a b = (case a of None \<Rightarrow> b | Some x \<Rightarrow> if x = [] then b else x)"

definition truthy :: "jsstring option \<Rightarrow> bool" where
  "truthy a = (case a of None \<Rightarrow> False | Some x \<Rightarrow> x \<noteq> [])"

text \<open>\<open>parts[i]\<close>, \<open>undefined\<close> out of range.\<close>

definition at :: "jsstring list \<Rightarrow> nat \<Rightarrow> jsstring option" where
  "at parts i = (if i < length parts then Some (parts ! i) else None)"

fun join :: "jsstring \<Rightarrow> jsstring list \<Rightarrow> jsstring" where
  "join sep [] = []"
| "join sep [x] = x"
| "join sep (x # y # ys) = x @ sep @ join sep (y # ys)"

definition parsePriority :: "jsstring \<Rightarrow> jsstring" where
  "parsePriority text =
     (if regexTest [liti ''critical''] text then js ''Critical''
      else if regexTest [liti ''high''] text then js ''High''
      else if regexTest [liti ''medium''] text then js ''Medium''
      else js ''High'')"

definition parseDepStatus :: "jsstring \<Rightarrow> jsstring" where
  "parseDepStatus text =
     (if regexTest [liti ''prohibit''] text \<or> regexTest [liti ''must not''] text
         \<or> regexTest [liti ''never'' @ [Star dot] @ liti ''set''] text
      then js ''Prohibited''
      else if regexTest [liti ''replac'', liti ''supersed''] text then js ''Replaced''
      else if regexTest [liti ''merg''] text then js ''Merged/Superseded''
      else if regexTest [liti ''remov''] text then js ''Removed''
      else js ''Deprecated'')"

definition parseNature :: "jsstring \<Rightarrow> jsstring" where
  "parseNature text =
     (if regexTest [liti ''new section''] text then js ''New section added''
      else if regexTest [liti ''fully replac''] text then js ''Fully replaced''
      else if regexTest [liti ''remov''] text then js ''Removed''
      else js ''Updated'')"

text \<open>
  The dash patterns of \<open>buildScopeXml\<close> are built from string literals:
  \<open>new RegExp("\s+[...]\s+")\<close>. In a JavaScript string literal \<open>\s\<close> is the
  letter \<open>s\<close>, so the pattern that reaches \<open>RegExp\<close> is \<open>s+[...]s+\<close>: one or more
  letters \<open>s\<close>, a dash, one or more letters \<open>s\<close>.
\<close>

definition isLetterS :: "nat \<Rightarrow> bool" where
  "isLetterS c = (c = 115)"

definition dashSplitRe :: regex where
  "dashSplitRe = [[Ch isLetterS, Star isLetterS, Ch isDash, Ch isLetterS, Star isLetterS]]"

definition dashSearchRe :: regex where
  "dashSearchRe = [[Ch isLetterS, Ch isDash, Ch isLetterS]]"

definition leadingDashRe :: regex where
  "leadingDashRe = [[Bol, Star isLetterS, Ch isDash, Star isLetterS]]"

text \<open>The records of the scopes: the body of each \<open>bullets.map\<close> and
  \<open>bullets.forEach\<close> callback of \<open>buildScopeXml\<close>.\<close>

definition newFeatureEntry :: "jsstring \<Rightarrow> jsstring \<times> jsstring" where
  "newFeatureEntry b =
     (let colonIdx = indexOf b (js '':'') 0
      in if 5 < colonIdx \<and> colonIdx < 80
         then (trim (slice b 0 colonIdx), trim (sliceFrom b (colonIdx + 1)))
         else (let dash = regexSearch dashSearchRe b
               in (if 5 < dash then trim (slice b 0 dash) else trim (slice b 0 60),
                   if 5 < dash then replaceFirst leadingDashRe [] (sliceFrom b dash) else [])))"

definition deprecatedRow :: "jsstring \<Rightarrow> jsstring list" where
  "deprecatedRow b =
     (let parts = split dashSplitRe b;
          item = orElse (map_option trim (at parts 0)) (slice b 0 60);
          notes = orElse (Some (trim (join [32, emDash, 32] (drop 1 parts)))) b;
          status = parseDepStatus b
      in [item, status, notes])"

definition deploymentRow :: "jsstring \<Rightarrow> jsstring list" where
  "deploymentRow b =
     (let parts = split dashSplitRe b;
          section = orElse (map_option trim (at parts 0)) (slice b 0 50);
          nature = (if truthy (at parts 1) then parseNature (the (at parts 1))
                    else parseNature b);
          impact = orElse (map_option trim (at parts 2))
                     (orElse (map_option trim (at parts 1)) [])
      in [section, nature, impact])"

definition securityRow :: "jsstring \<Rightarrow> jsstring list" where
  "securityRow b =
     (let sev = (if regexTest [liti ''critical''] b then js ''Critical''
                 else if regexTest [liti ''high''] b then js ''High''
                 else js ''Medium'')
      in [b, sev, js ''Verify compliance''])"

definition migrationRow :: "jsstring \<Rightarrow> jsstring list" where
  "migrationRow b =
     (let parts = split dashSplitRe b;
          area = orElse (map_option trim (at parts 0)) (slice b 0 30);
          action = orElse (map_option trim (at parts 1)) b;
          pri = parsePriority (orElse (at parts 2) b)
      in [area, action, pri])"

section \<open>Building the markup of one scope\<close>

record scope =
  scope_id :: jsstring
  scope_label :: jsstring

definition mkCol :: "string \<Rightarrow> nat \<Rightarrow> col" where
  "mkCol l n = \<lparr> label = js l, w = n \<rparr>"

text \<open>The column lists of the four tables of \<open>buildScopeXml\<close>.\<close>

definition deprecatedCols :: "col list" where
  "deprecatedCols = [mkCol ''Item'' 3200, mkCol ''Status'' 1500, mkCol ''Notes'' 4259]"

definition deploymentCols :: "col list" where
  "deploymentCols =
     [mkCol ''Changed Section'' 3136, mkCol ''Nature of Change'' 1800,
      mkCol ''Operational Impact'' 4023]"

definition securityCols :: "col list" where
  "securityCols =
     [mkCol ''Security Requirement'' 5500, mkCol ''Severity'' 1600, mkCol ''Action'' 1859]"

definition migrationCols :: "col list" where
  "migrationCols =
     [mkCol ''Area'' 2400, mkCol ''Action Required'' 5159, mkCol ''Priority'' 1400]"

text \<open>A table section: heading, introduction, spacer, table, spacer.\<close>

definition tableSection ::
  "string \<Rightarrow> string \<Rightarrow> col list \<Rightarrow> jsstring list list \<Rightarrow> styles \<Rightarrow> error + jsstring"
where
  "tableSection heading intro cols rows st =
     (case xmlTable3 cols rows st of
        Inl e \<Rightarrow> Inl e
      | Inr tbl \<Rightarrow>
          Inr (xmlH1 (js heading) st @ xmlBody (js intro) st @ xmlSpacer st @ tbl
               @ xmlSpacer st))"

definition buildScopeXml ::
  "runtime \<Rightarrow> scope \<Rightarrow> jsstring list \<Rightarrow> styles \<Rightarrow> error + jsstring"
where
  "buildScopeXml rt scope bullets st =
     (if bullets = [] then
        Inr (xmlH1 (scope_label scope) st
             @ xmlBody (js ''No '' @ toLowerCase rt (scope_label scope)
                        @ js '' identified in this document.'') st
             @ xmlSpacer st)
      else if scope_id scope = js ''new_features'' then
        Inr (xmlH1 (js ''New or Changed Features'') st
             @ xmlBody (js ''The following features and sections were added or significantly updated in this release.'') st
             @ xmlSpacer st
             @ concat (map (\<lambda>b. case newFeatureEntry b of
                                   (title, detail) \<Rightarrow>
                                     xmlH2 title st @ xmlBody detail st @ xmlSpacer st)
                           bullets))
      else if scope_id scope = js ''deprecated'' then
        tableSection ''Deprecated or Removed Features''
          ''The following items have been removed or superseded in this release.''
          deprecatedCols (map deprecatedRow bullets) st
      else if scope_id scope = js ''deployment_changes'' then
        tableSection ''Deployment Guide Update Notes''
          ''The following items represent notable changes that impact how deployments should be executed.''
          deploymentCols (map deploymentRow bullets) st
      else if scope_id scope = js ''security'' then
        tableSection ''Security & Compliance Requirements''
          ''The following security requirements, credential rules, and compliance mandates were identified.''
          securityCols (map securityRow bullets) st
      else if scope_id scope = js ''breaking_changes'' then
        Inr (xmlH1 (js ''Breaking Changes'') st
             @ xmlBody (js ''The following changes may break existing deployments if previous documentation was followed. Immediate review is required.'') st
             @ xmlSpacer st
             @ concat (map (\<lambda>b. xmlBullet b st) bullets)
             @ xmlSpacer st)
      else if scope_id scope = js ''migration_guide'' then
        tableSection ''Summary: Key Actions for Deployment Teams''
          ''The following actions are required when migrating from the previous release.''
          migrationCols (map migrationRow bullets) st
      else
        Inr (xmlH1 (scope_label scope) st @ xmlSpacer st
             @ concat (map (\<lambda>b. xmlBullet b st) bullets)
             @ xmlSpacer st))"

section \<open>The injection point and the cover title\<close>

record bounds =
  prefixEnd :: int
  suffixStart :: int

definition findInjectionBounds :: "jsstring \<Rightarrow> bounds" where
  "findInjectionBounds docXml =
     (let lastSectStart = lastIndexOf docXml (js ''<w:sectPr'') None;
          lastParaEnd = lastIndexOf docXml (js ''</w:p>'') (Some lastSectStart);
          pEnd = (if lastParaEnd \<noteq> - 1 then lastParaEnd + int (length (js ''</w:p>''))
                  else lastSectStart)
      in \<lparr> prefixEnd = pEnd, suffixStart = lastSectStart \<rparr>)"

text \<open>The title of the analysed document; \<open>None\<close> is a property that is absent.\<close>

record docTitle =
  title :: "jsstring option"
  subtitle :: "jsstring option"

definition updateCoverTitle :: "runtime \<Rightarrow> jsstring \<Rightarrow> docTitle \<Rightarrow> jsstring" where
  \<open>updateCoverTitle rt docXml dt =
     (if \<not> truthy (title dt) then docXml
      else
        let titleStyleIdx = indexOf docXml (js ''w:val="Title"'') 0
        in if titleStyleIdx = - 1 then docXml
           else
             let paraStart = lastIndexOf docXml (js ''<w:p>'') (Some titleStyleIdx);
                 paraStart2 = lastIndexOf docXml (js ''<w:p '') (Some titleStyleIdx);
                 pStart = max paraStart paraStart2;
                 pEnd = indexOf docXml (js ''</w:p>'') titleStyleIdx
                        + int (length (js ''</w:p>''))
             in if pStart = - 1 \<or> pEnd = - 1 then docXml
                else
                  let newTitlePara =
                        js ''<w:p><w:pPr><w:pStyle w:val="Title"/></w:pPr>''
                        @ js ''<w:r><w:t xml:space="preserve">''
                        @ xmlEsc (toUpperCase rt (the (title dt)))
                        @ (if truthy (subtitle dt)
                           then js '' - '' @ xmlEsc (toUpperCase rt (the (subtitle dt)))
                           else [])
                        @ js ''</w:t></w:r></w:p>''
                  in slice docXml 0 pStart @ newTitlePara @ sliceFrom docXml pEnd)\<close>

section \<open>The template archive and the export\<close>

text \<open>
  An archive in memory is the table \<open>zip.files\<close>: a map from the path of a part to its
  content. Reading the bytes of an archive is the work of the archive library and is a
  parameter, \<open>loadAsync\<close>, which gives \<open>None\<close> where the library rejects the bytes.
  \<open>zip.file(name, data)\<close> is the update of the table at \<open>name\<close>; the entries that the
  library may add for the folders above \<open>name\<close> are not parts of the template and are
  left out of the table.
\<close>

type_synonym zipFiles = "jsstring \<rightharpoonup> jsstring"
type_synonym loader = "nat list \<Rightarrow> zipFiles option"

definition stripCustomXml :: "zipFiles \<Rightarrow> zipFiles" where
  "stripCustomXml files =
     (\<lambda>k. if startsWith k (js ''customXml/'') then None else files k)"

text \<open>\<open>if (zip.files[name]) zip.file(name, f(content))\<close>.\<close>

definition patchPart :: "zipFiles \<Rightarrow> jsstring \<Rightarrow> (jsstring \<Rightarrow> jsstring) \<Rightarrow> zipFiles" where
  "patchPart files name f =
     (case files name of None \<Rightarrow> files | Some content \<Rightarrow> files(name \<mapsto> f content))"

definition customXmlRelRe :: regex where
  "customXmlRelRe =
     [lit ''<Relationship'' @ [Star (notChar CHR ''>'')] @ lit ''relationships/customXml''
      @ [Star (notChar CHR ''>'')] @ lit ''/>'']"

definition customXmlOverrideRe :: regex where
  "customXmlOverrideRe =
     [lit ''<Override'' @ [Star (notChar CHR ''>'')] @ lit ''/customXml/''
      @ [Star (notChar CHR ''>'')] @ lit ''/>'']"

definition dotmRelRe :: regex where
  "dotmRelRe =
     [lit ''<Relationship'' @ [Star (notChar CHR ''>''), Ch (isChar CHR ''.'')] @ lit ''dotm''
      @ [Star (notChar CHR ''/'')] @ lit ''/>'']"

definition attachedTemplateRe :: regex where
  "attachedTemplateRe =
     [lit ''<w:attachedTemplate'' @ [Star (notChar CHR ''/'')] @ lit ''/>'']"

definition notAlnum :: "nat \<Rightarrow> bool" where
  "notAlnum c = (\<not> ((97 \<le> lowerAscii c \<and> lowerAscii c \<le> 122) \<or> isDigit c))"

definition docPath :: jsstring where
  "docPath = js ''word/document.xml''"

definition stylesPath :: jsstring where
  "stylesPath = js ''word/styles.xml''"

definition findings :: "(jsstring \<rightharpoonup> jsstring list) \<Rightarrow> scope \<Rightarrow> jsstring list" where
  "findings resultMap sc = (case resultMap (scope_id sc) of None \<Rightarrow> [] | Some bs \<Rightarrow> bs)"

text \<open>\<open>scopeList.map(scope => buildScopeXml(...)).join("")\<close>; the first scope that
  throws ends the export.\<close>

fun contentXml ::
  "runtime \<Rightarrow> scope list \<Rightarrow> (jsstring \<rightharpoonup> jsstring list) \<Rightarrow> styles \<Rightarrow> error + jsstring"
where
  "contentXml rt [] resultMap st = Inr []"
| "contentXml rt (sc # scs) resultMap st =
     (case buildScopeXml rt sc (findings resultMap sc) st of
        Inl e \<Rightarrow> Inl e
      | Inr x \<Rightarrow> (case contentXml rt scs resultMap st of
                    Inl e \<Rightarrow> Inl e
                  | Inr rest \<Rightarrow> Inr (x @ rest)))"

text \<open>What the export hands to the browser: the parts of the generated archive and the
  name of the download.\<close>

record download =
  archive :: zipFiles
  fileName :: jsstring

definition spliceDocument :: "jsstring \<Rightarrow> jsstring \<Rightarrow> jsstring" where
  "spliceDocument docXml content =
     (let b = findInjectionBounds docXml;
          prefix = slice docXml 0 (prefixEnd b);
          suffix = sliceFrom docXml (suffixStart b)
      in prefix @ content @ suffix)"

definition downloadName :: "runtime \<Rightarrow> docTitle \<Rightarrow> jsstring \<Rightarrow> jsstring" where
  "downloadName rt dt docName =
     (let safeName = slice (replaceAll [[Ch notAlnum]] (js ''_'')
                              (orElse (title dt) (orElse (Some docName) (js ''analysis''))))
                       0 40
      in js ''ReleaseLens_'' @ safeName @ js ''_'' @ slice (isoDate rt) 0 10 @ js ''.docx'')"

text \<open>The clean-up steps of \<open>exportWithTemplate\<close>: the \<open>customXml\<close> parts go, and
  four index and settings parts, where present, lose the entries that refer to them or
  to an attached template.\<close>

definition stripMetadata :: "zipFiles \<Rightarrow> zipFiles" where
  "stripMetadata zipf =
     (let z1 = stripCustomXml zipf;
          z2 = patchPart z1 (js ''word/_rels/document.xml.rels'')
                 (replaceAll customXmlRelRe []);
          z3 = patchPart z2 (js ''[Content_Types].xml'')
                 (replaceAll customXmlOverrideRe []);
          z4 = patchPart z3 (js ''word/_rels/settings.xml.rels'') (replaceAll dotmRelRe [])
      in patchPart z4 (js ''word/settings.xml'') (replaceAll attachedTemplateRe []))"

definition exportWithTemplate ::
  "runtime \<Rightarrow> loader \<Rightarrow> nat list \<Rightarrow> scope list \<Rightarrow> (jsstring \<rightharpoonup> jsstring list) \<Rightarrow> jsstring
   \<Rightarrow> docTitle \<Rightarrow> styles \<Rightarrow> error + download"
where
  "exportWithTemplate rt loadAsync templateBuffer scopeList resultMap docName dt st =
     (case loadAsync templateBuffer of
        None \<Rightarrow> Inl ArchiveError
      | Some zipf \<Rightarrow>
          let z = stripMetadata zipf
          in (case z docPath of
                None \<Rightarrow> Inl TypeError
              | Some docXml0 \<Rightarrow>
                  let docXml = updateCoverTitle rt docXml0 dt
                  in (case contentXml rt scopeList resultMap st of
                        Inl e \<Rightarrow> Inl e
                      | Inr content \<Rightarrow>
                          Inr \<lparr> archive = z(docPath \<mapsto> spliceDocument docXml content),
                                fileName = downloadName rt dt docName \<rparr>)))"

section \<open>Resolving the styles of a template\<close>

definition styleRe :: regex where
  \<open>styleRe =
     [lit ''<w:style'' @ [WordB, Star (notChar CHR ''>'')] @ lit ''w:styleId="''
      @ [Open 1, Ch (notChar CHR ''"''), Star (notChar CHR ''"''), Close 1] @ lit ''"''
      @ [Star (notChar CHR ''>'')] @ lit ''>'' @ [Open 2, Lazy anyChar, Close 2]
      @ lit ''</w:style>'']\<close>

definition nameRe :: regex where
  \<open>nameRe =
     [lit ''<w:name'' @ [WordB, Star (notChar CHR ''>'')] @ lit ''w:val="''
      @ [Open 1, Ch (notChar CHR ''"''), Star (notChar CHR ''"''), Close 1] @ lit ''"'']\<close>

definition fillRe :: regex where
  \<open>fillRe =
     [lit ''w:fill="'' @ [Open 1] @ replicate 6 (Ch isHexDigit) @ [Close 1] @ lit ''"'']\<close>

text \<open>The text of a group where the source uses it as a string: \<open>undefined\<close> becomes
  the string \<open>undefined\<close>.\<close>

definition groupText :: "jsstring \<Rightarrow> captures \<Rightarrow> nat \<Rightarrow> jsstring" where
  "groupText s cs n = (case group s cs n of None \<Rightarrow> js ''undefined'' | Some t \<Rightarrow> t)"

text \<open>\<open>while ((m = re.exec(xml)) !== null)\<close> with a global \<open>re\<close>: every match in
  turn, each search starting where the last match ended. An empty match would leave
  \<open>lastIndex\<close> where it is and the loop would not end: that is the value \<open>None\<close>.\<close>

fun execAllGo ::
  "regex \<Rightarrow> nat \<Rightarrow> nat \<Rightarrow> nat option \<Rightarrow> jsstring \<Rightarrow> (nat \<times> nat \<times> captures) list option"
where
  "execAllGo re skip p pv [] =
     (if skip = 0 \<and> matchAt re p pv [] \<noteq> None then None else Some [])"
| "execAllGo re skip p pv (x # xs) =
     (if 0 < skip then execAllGo re (skip - 1) (Suc p) (Some x) xs
      else (case matchAt re p pv (x # xs) of
              None \<Rightarrow> execAllGo re 0 (Suc p) (Some x) xs
            | Some (e, cs) \<Rightarrow>
                if e = p then None
                else map_option (Cons (p, e, cs))
                       (execAllGo re (e - p - 1) (Suc p) (Some x) xs)))"

definition execAll :: "regex \<Rightarrow> jsstring \<Rightarrow> (nat \<times> nat \<times> captures) list option" where
  "execAll re s = execAllGo re 0 0 None s"

text \<open>A plain object as the list of its properties in creation order.
  \<open>Object.entries\<close> lists the keys that are array indices first, in ascending numeric
  order, then the other keys in creation order.\<close>

type_synonym object = "(jsstring \<times> jsstring) list"

fun setProp :: "object \<Rightarrow> jsstring \<Rightarrow> jsstring \<Rightarrow> object" where
  "setProp [] k v = [(k, v)]"
| "setProp ((k', v') # ps) k v =
     (if k' = k then (k, v) # ps else (k', v') # setProp ps k v)"

definition toNumber :: "jsstring \<Rightarrow> nat" where
  "toNumber k = foldl (\<lambda>n c. 10 * n + (c - 48)) 0 k"

definition isArrayIndex :: "jsstring \<Rightarrow> bool" where
  "isArrayIndex k =
     (k \<noteq> [] \<and> list_all isDigit k \<and> (k = [48] \<or> hd k \<noteq> 48) \<and> toNumber k < 4294967295)"

definition entries :: "object \<Rightarrow> (jsstring \<times> jsstring) list" where
  "entries m =
     sort_key (\<lambda>kv. toNumber (fst kv)) (filter (\<lambda>kv. isArrayIndex (fst kv)) m)
     @ filter (\<lambda>kv. \<not> isArrayIndex (fst kv)) m"

text \<open>The style map of the catalogue: style identifier to normalised display name.\<close>

definition styleName :: "runtime \<Rightarrow> jsstring \<Rightarrow> jsstring" where
  "styleName rt inner =
     (let nm = (case regexExec nameRe inner of
                  None \<Rightarrow> []
                | Some (b, e, cs) \<Rightarrow> orElse (group inner cs 1) [])
      in trim (toLowerCase rt nm))"

text \<open>\<open>map[m[1]] = ...\<close> for each match in turn. The key \<open>__proto__\<close> is the one
  key for which the assignment of a string to an object literal creates no property.\<close>

fun styleMap ::
  "runtime \<Rightarrow> jsstring \<Rightarrow> object \<Rightarrow> (nat \<times> nat \<times> captures) list \<Rightarrow> object"
where
  "styleMap rt xml m [] = m"
| "styleMap rt xml m ((b, e, cs) # ms) =
     styleMap rt xml
       (if groupText xml cs 1 = js ''__proto__'' then m
        else setProp m (groupText xml cs 1) (styleName rt (groupText xml cs 2)))
       ms"

datatype pat = Str jsstring | Re regex

fun patMatches :: "pat \<Rightarrow> jsstring \<Rightarrow> bool" where
  "patMatches (Str p) name = (name = p)"
| "patMatches (Re p) name = regexTest p name"

fun pickFrom :: "(jsstring \<times> jsstring) list \<Rightarrow> pat list \<Rightarrow> jsstring option" where
  "pickFrom [] pats = None"
| "pickFrom ((ident, name) # es) pats =
     (if list_ex (\<lambda>p. patMatches p name) pats then Some ident else pickFrom es pats)"

definition pick :: "object \<Rightarrow> pat list \<Rightarrow> jsstring option" where
  "pick m pats = pickFrom (entries m) pats"

definition ws :: atom where
  "ws = Star isWhiteSpace"

definition detectFill :: "runtime \<Rightarrow> zipFiles \<Rightarrow> jsstring" where
  "detectFill rt zipf =
     (case zipf docPath of
        None \<Rightarrow> fill DEFAULT_STYLES
      | Some d \<Rightarrow>
          (case regexExec fillRe d of
             None \<Rightarrow> fill DEFAULT_STYLES
           | Some (b, e, cs) \<Rightarrow> toUpperCase rt (groupText d cs 1)))"

text \<open>The result is \<open>None\<close> where the call would not return.\<close>

definition detectTemplateStyles ::
  "runtime \<Rightarrow> loader \<Rightarrow> nat list \<Rightarrow> (error + styles) option"
where
  "detectTemplateStyles rt loadAsync buf =
     (case loadAsync buf of
        None \<Rightarrow> Some (Inl ArchiveError)
      | Some zipf \<Rightarrow>
          (case zipf stylesPath of
             None \<Rightarrow> Some (Inr DEFAULT_STYLES)
           | Some xml \<Rightarrow>
               (case execAll styleRe xml of
                  None \<Rightarrow> None
                | Some ms \<Rightarrow>
                    let m = styleMap rt xml [] ms;
                        rH1 = Re [[Bol] @ lit ''heading'' @ [ws] @ lit ''1'' @ [Eol]];
                        rH2 = Re [[Bol] @ lit ''heading'' @ [ws] @ lit ''2'' @ [Eol]];
                        rBody = Re [[Bol] @ lit ''body''];
                        rBul = Re [[Bol] @ lit ''list'' @ [ws] @ lit ''bullet''];
                        rTH = Re [[Bol] @ lit ''table'' @ [ws] @ lit ''head''];
                        rTHid = Re [[Bol] @ lit ''tableheader''];
                        rTT = Re [[Bol] @ lit ''table'' @ [ws] @ lit ''text''];
                        rTTid = Re [[Bol] @ lit ''tabletext''];
                        rTG = Re [[Bol] @ lit ''table'' @ [ws] @ lit ''grid'']
                    in Some (Inr
                      \<lparr> h1 = orElse (pick m [Str (js ''heading 1''), rH1]) (h1 DEFAULT_STYLES),
                        h2 = orElse (pick m [Str (js ''heading 2''), rH2]) (h2 DEFAULT_STYLES),
                        body = orElse (pick m [Str (js ''body text''), Str (js ''bodytext''), rBody])
                                 (body DEFAULT_STYLES),
                        bullet = orElse (pick m [Str (js ''list bullet''), rBul])
                                   (bullet DEFAULT_STYLES),
                        tableHeader = orElse (pick m [Str (js ''table header''), rTHid, rTH])
                                        (tableHeader DEFAULT_STYLES),
                        tableText = orElse (pick m [Str (js ''table text''), rTTid, rTT])
                                      (tableText DEFAULT_STYLES),
                        tableGrid = orElse (pick m [Str (js ''table grid''), rTG,
                                                    Str (js ''normal table'')])
                                      (tableGrid DEFAULT_STYLES),
                        fill = detectFill rt zipf \<rparr>))))"

section \<open>The record builder of the older export (src/App.jsx)\<close>

text \<open>\<open>buildDeprecated\<close> of src/App.jsx splits with the regular expression literal
  \<open>/\s+[...]\s+/\<close>, where \<open>\s\<close> is the white space class.\<close>

definition wsDashSplitRe :: regex where
  "wsDashSplitRe =
     [[Ch isWhiteSpace, Star isWhiteSpace, Ch isDash, Ch isWhiteSpace, Star isWhiteSpace]]"

definition buildDeprecatedRow :: "jsstring \<Rightarrow> jsstring list" where
  "buildDeprecatedRow b =
     (let parts = split wsDashSplitRe b;
          itemName = (if truthy (at parts 0) then trim (the (at parts 0)) else slice b 0 50);
          notes = orElse (Some (trim (join [32, emDash, 32] (drop 1 parts)))) b;
          status = (if regexTest [liti ''prohibit''] b then js ''Prohibited''
                    else if regexTest [liti ''replac'', liti ''supersed''] b then js ''Replaced''
                    else if regexTest [liti ''merg''] b then js ''Merged/Superseded''
                    else if regexTest [liti ''remov''] b then js ''Removed''
                    else js ''Deprecated'')
      in [itemName, status, notes])"

section \<open>Sections as sequences of records\<close>

text \<open>The markup of one table row whose cells are \<open>row\<close>.\<close>

definition rowMarkup :: "col list \<Rightarrow> styles \<Rightarrow> jsstring list \<Rightarrow> jsstring" where
  "rowMarkup cols st row =
     js ''<w:tr>'' @ concat (map (\<lambda>(c, cell). dataCell st c cell) (zip cols row))
     @ js ''</w:tr>''"

text \<open>The markup that one finding contributes to the section of the scope \<open>sid\<close>:
  the sub-heading and paragraph of a feature, the row of a table, or a bullet.\<close>

definition recordXml :: "jsstring \<Rightarrow> styles \<Rightarrow> jsstring \<Rightarrow> jsstring" where
  "recordXml sid st b =
     (if sid = js ''new_features'' then
        (case newFeatureEntry b of
           (t, detail) \<Rightarrow> xmlH2 t st @ xmlBody detail st @ xmlSpacer st)
      else if sid = js ''deprecated'' then rowMarkup deprecatedCols st (deprecatedRow b)
      else if sid = js ''deployment_changes'' then rowMarkup deploymentCols st (deploymentRow b)
      else if sid = js ''security'' then rowMarkup securityCols st (securityRow b)
      else if sid = js ''breaking_changes'' then xmlBullet b st
      else if sid = js ''migration_guide'' then rowMarkup migrationCols st (migrationRow b)
      else xmlBullet b st)"

section \<open>Reading the output\<close>

text \<open>The parts whose content \<open>exportWithTemplate\<close> writes.\<close>

definition rewrittenParts :: "jsstring list" where
  "rewrittenParts =
     [js ''word/_rels/document.xml.rels'', js ''[Content_Types].xml'',
      js ''word/_rels/settings.xml.rels'', js ''word/settings.xml'', docPath]"

text \<open>The main document part of the archive that an export hands over; \<open>None\<close> when
  the export fails.\<close>

definition exportedDocument :: "error + download \<Rightarrow> jsstring option" where
  "exportedDocument r = (case r of Inl e \<Rightarrow> None | Inr out \<Rightarrow> archive out docPath)"

text \<open>The number of indices at which \<open>pat\<close> occurs in a string.\<close>

fun occurrences :: "jsstring \<Rightarrow> jsstring \<Rightarrow> nat" where
  "occurrences pat [] = (if pat = [] then 1 else 0)"
| "occurrences pat (x # xs) = (if prefix pat (x # xs) then 1 else 0) + occurrences pat xs"

text \<open>A style identifier that can stand in an attribute value: it holds neither \<open><\<close>
  (code unit 60) nor a double quote (code unit 34).\<close>

definition plainId :: "jsstring \<Rightarrow> bool" where
  "plainId s = list_all (\<lambda>c. c \<noteq> 60 \<and> c \<noteq> 34) s"

text \<open>The style reference of a paragraph in the style \<open>s\<close>.\<close>

definition pStyleTag :: "jsstring \<Rightarrow> jsstring" where
  \<open>pStyleTag s = js ''<w:pStyle w:val="'' @ s @ js ''"/>''\<close>

text \<open>The escaped form of a text, one code unit at a time.\<close>

definition escapeChar :: "nat \<Rightarrow> jsstring" where
  "escapeChar c =
     (if c = 38 then js ''&amp;'' else if c = 60 then js ''&lt;''
      else if c = 62 then js ''&gt;'' else if c = 34 then js ''&quot;'' else [c])"

definition escaped :: "jsstring \<Rightarrow> jsstring" where
  "escaped s = concat (map escapeChar s)"

text \<open>The fields of the record of one finding under the scope \<open>sid\<close>: title and
  detail of a feature, the three cells of a table row, or the finding itself.\<close>

definition parsedRecord :: "jsstring \<Rightarrow> jsstring \<Rightarrow> jsstring list" where
  "parsedRecord sid b =
     (if sid = js ''new_features'' then (case newFeatureEntry b of (t, detail) \<Rightarrow> [t, detail])
      else if sid = js ''deprecated'' then deprecatedRow b
      else if sid = js ''deployment_changes'' then deploymentRow b
      else if sid = js ''security'' then securityRow b
      else if sid = js ''breaking_changes'' then [b]
      else if sid = js ''migration_guide'' then migrationRow b
      else [b])"

text \<open>Fixed markup with the escaped fields of a record in its gaps: the first piece of
  the frame, the first field, the second piece, the second field, and so on. Every
  field is part of the result, in order, whatever the frame.\<close>

fun fillFrame :: "jsstring list \<Rightarrow> jsstring list \<Rightarrow> jsstring" where
  "fillFrame [] [] = []"
| "fillFrame (p # ps) [] = p @ fillFrame ps []"
| "fillFrame [] (c # cs) = escaped c @ fillFrame [] cs"
| "fillFrame (p # ps) (c # cs) = p @ escaped c @ fillFrame ps cs"

text \<open>The dash pattern as src/App.jsx writes it for the features, \<open>/\s[...]\s/\<close>: a
  dash between two white space code units.\<close>

definition wsDashSearchRe :: regex where
  "wsDashSearchRe = [[Ch isWhiteSpace, Ch isDash, Ch isWhiteSpace]]"

section \<open>Sample inputs\<close>

definition legacyFinding :: jsstring where
  "legacyFinding =
     js ''Legacy Auth Token '' @ [emDash]
     @ js '' Replaced by OAuth2 client credentials; update all integration scripts''"

definition plainFinding :: jsstring where
  "plainFinding = js ''Old API removed''"

definition bodyWithoutSectPr :: jsstring where
  "bodyWithoutSectPr = js ''<w:document><w:body><w:p>x</w:p></w:body></w:document>''"

definition sampleRuntime :: runtime where
  "sampleRuntime =
     \<lparr> unicodeUpper = (\<lambda>s. s), unicodeLower = (\<lambda>s. s),
       isoDate = js ''2026-03-01T10:00:00.000Z'' \<rparr>"

definition sampleScope :: scope where
  "sampleScope = \<lparr> scope_id = js ''security'', scope_label = js ''Security & Compliance'' \<rparr>"

definition noTitle :: docTitle where
  "noTitle = \<lparr> title = None, subtitle = None \<rparr>"

definition newTitle :: docTitle where
  "newTitle = \<lparr> title = Some (js ''New''), subtitle = None \<rparr>"

definition imagePath :: jsstring where
  "imagePath = js ''word/media/image1.png''"

definition sampleArchive :: zipFiles where
  "sampleArchive =
     map_of [(docPath, js ''<w:p>x</w:p><w:sectPr/>''),
             (imagePath, [137, 80, 78, 71]),
             (js ''customXml/item1.xml'', js ''<x/>'')]"

definition sampleLoader :: loader where
  "sampleLoader buf = Some sampleArchive"

definition rejectingLoader :: loader where
  "rejectingLoader buf = None"

definition emptyArchiveLoader :: loader where
  "emptyArchiveLoader buf = Some Map.empty"

definition coverBody :: jsstring where
  \<open>coverBody =
     js ''<w:p><w:pPr><w:pStyle w:val="Title"/></w:pPr><w:r><w:t>Old</w:t></w:r></w:p><w:sectPr/>''\<close>

definition coverLoader :: loader where
  "coverLoader buf = Some [docPath \<mapsto> coverBody]"

definition sampleCatalogue :: jsstring where
  \<open>sampleCatalogue =
     js ''<w:style w:type="paragraph" w:styleId="MyH1"><w:name w:val="Heading 1"/></w:style>''\<close>

definition fillBody :: jsstring where
  \<open>fillBody = js ''<w:shd w:fill="ff00aa"/>''\<close>

definition catalogueLoader :: loader where
  "catalogueLoader buf = Some [stylesPath \<mapsto> sampleCatalogue, docPath \<mapsto> fillBody]"

definition noCatalogueLoader :: loader where
  "noCatalogueLoader buf = Some [docPath \<mapsto> fillBody]"

definition processFinding :: jsstring where
  "processFinding = js ''Process'' @ [emDash] @ js ''starts now''"

definition notesScope :: scope where
  "notesScope = \<lparr> scope_id = js ''custom_1'', scope_label = js ''Notes'' \<rparr>"

definition breakingScope :: scope where
  "breakingScope = \<lparr> scope_id = js ''breaking_changes'', scope_label = js ''Breaking Changes'' \<rparr>"

definition sampleResults :: "jsstring \<rightharpoonup> jsstring list" where
  "sampleResults = [js ''custom_1'' \<mapsto> [js ''b<c'', js ''a'', js ''b<c'']]"

section \<open>The deprecated scenario\<close>

lemma buildDeprecatedRow_legacy:
  "buildDeprecatedRow legacyFinding =
     [js ''Legacy Auth Token'', js ''Replaced'',
      js ''Replaced by OAuth2 client credentials; update all integration scripts'']"
  by code_simp

text \<open>
  C4. Under the scope \<open>deprecated\<close>, \<open>buildScopeXml\<close> turns the finding
  "Legacy Auth Token (em dash) Replaced by OAuth2 client credentials; update all
  integration scripts" into the row whose item and notes are both the whole finding and
  whose status is "Replaced": the pattern \<open>s+[...]s+\<close> finds no separator in it.
  The item is not "Legacy Auth Token".
\<close>

theorem deprecatedRow_legacy:
  "deprecatedRow legacyFinding = [legacyFinding, js ''Replaced'', legacyFinding]
   \<and> hd (deprecatedRow legacyFinding) \<noteq> js ''Legacy Auth Token''"
  by code_simp

section \<open>A body without a page-layout block\<close>

text \<open>Without a \<open>sectPr\<close> block the markup is spliced in before the last code unit
  of the body.\<close>

lemma spliceDocument_no_sectPr:
  assumes "lastIndexOf d (js ''<w:sectPr'') None = - 1" and "\<not> prefix (js ''</w:p>'') d"
    and "d \<noteq> []"
  shows "spliceDocument d content = butlast d @ content @ [last d]"
proof -
  have "lastIndexOf d (js ''</w:p>'') (Some (- 1)) = - 1"
    using assms(2) by (simp add: lastIndexOf_def clampIndex_def)
  with assms(1) have b: "findInjectionBounds d = \<lparr> prefixEnd = - 1, suffixStart = - 1 \<rparr>"
    by (simp add: findInjectionBounds_def Let_def)
  from assms(3) obtain ys y where d: "d = ys @ [y]"
    by (cases d rule: rev_cases) auto
  have idx: "sliceIndex (- 1) (length d) = length ys" "sliceIndex 0 (length d) = 0"
    by (simp_all add: sliceIndex_def d)
  have "slice d 0 (- 1) = butlast d"
    unfolding slice_def Let_def idx by (simp add: d)
  moreover have "sliceFrom d (- 1) = [last d]"
    unfolding sliceFrom_def idx by (simp add: d)
  ultimately show ?thesis
    by (simp add: spliceDocument_def b Let_def)
qed

text \<open>
  C2. The body \<open><w:document><w:body><w:p>x</w:p></w:body></w:document>\<close> has no
  \<open>sectPr\<close> block, and both bounds are \<open>-1\<close>: the prefix is the body without its
  last code unit, the suffix is that last code unit, and the generated markup lands
  before the final \<open>>\<close>, not after the whole body.
\<close>

theorem spliceDocument_without_sectPr:
  "lastIndexOf bodyWithoutSectPr (js ''<w:sectPr'') None = - 1
   \<and> findInjectionBounds bodyWithoutSectPr = \<lparr> prefixEnd = - 1, suffixStart = - 1 \<rparr>
   \<and> spliceDocument bodyWithoutSectPr (js ''NEW'')
       = js ''<w:document><w:body><w:p>x</w:p></w:body></w:document'' @ js ''NEW'' @ js ''>''
   \<and> spliceDocument bodyWithoutSectPr (js ''NEW'') \<noteq> bodyWithoutSectPr @ js ''NEW''"
  by code_simp

section \<open>The shape of a section\<close>

lemma cellsXml_zip:
  "i + length row \<le> length cols \<Longrightarrow>
   cellsXml cols st i row
   = Inr (concat (map (\<lambda>(c, cell). dataCell st c cell) (zip (drop i cols) row)))"
proof (induction row arbitrary: i)
  case Nil
  then show ?case by simp
next
  case (Cons cell row)
  then have lt: "i < length cols" and rest: "Suc i + length row \<le> length cols" by simp_all
  from lt have "drop i cols = cols ! i # drop (Suc i) cols"
    by (simp add: Cons_nth_drop_Suc)
  with Cons.IH [OF rest] lt show ?case by simp
qed

lemma rowXml_markup:
  "length row \<le> length cols \<Longrightarrow> rowXml cols st row = Inr (rowMarkup cols st row)"
  by (simp add: rowXml_def rowMarkup_def cellsXml_zip)

lemma dataRowsXml_concat:
  "(\<And>b. length (f b) \<le> length cols) \<Longrightarrow>
   dataRowsXml cols st (map f bs) = Inr (concat (map (\<lambda>b. rowMarkup cols st (f b)) bs))"
  by (induction bs) (simp_all add: rowXml_markup)

lemma tableSection_ordered:
  assumes "\<And>b. length (f b) \<le> length cols"
  shows "tableSection heading intro cols (map f bs) st
         = Inr ((xmlH1 (js heading) st @ xmlBody (js intro) st @ xmlSpacer st
                 @ tableOpen cols st)
                @ concat (map (\<lambda>b. rowMarkup cols st (f b)) bs)
                @ (js ''</w:tbl>'' @ xmlSpacer st))"
  by (simp add: tableSection_def xmlTable3_def dataRowsXml_concat [OF assms])

lemma row_lengths:
  "length (deprecatedRow b) \<le> length deprecatedCols"
  "length (deploymentRow b) \<le> length deploymentCols"
  "length (securityRow b) \<le> length securityCols"
  "length (migrationRow b) \<le> length migrationCols"
  by (simp_all add: deprecatedRow_def deploymentRow_def securityRow_def migrationRow_def
        deprecatedCols_def deploymentCols_def securityCols_def migrationCols_def Let_def)

lemma table_scope_ordered:
  assumes eq: "\<And>b bs. build (b # bs) = tableSection heading intro cols (map f (b # bs)) st"
    and len: "\<And>b. length (f b) \<le> length cols"
    and g: "\<And>b. g b = rowMarkup cols st (f b)"
  shows "\<exists>head tail. \<forall>b bs. build (b # bs) = Inr (head @ concat (map g (b # bs)) @ tail)"
proof (intro exI allI)
  fix b bs
  have geq: "g = (\<lambda>b. rowMarkup cols st (f b))"
    by (rule ext) (rule g)
  show "build (b # bs)
        = Inr ((xmlH1 (js heading) st @ xmlBody (js intro) st @ xmlSpacer st
                @ tableOpen cols st)
               @ concat (map g (b # bs)) @ (js ''</w:tbl>'' @ xmlSpacer st))"
    unfolding eq tableSection_ordered [of f, OF len] by (simp add: geq)
qed

lemma buildScopeXml_ordered:
  "\<exists>head tail. \<forall>b bs. buildScopeXml rt sc (b # bs) st
       = Inr (head @ concat (map (recordXml (scope_id sc) st) (b # bs)) @ tail)"
proof -
  consider (nf) "scope_id sc = js ''new_features''"
    | (dep) "scope_id sc \<noteq> js ''new_features''" "scope_id sc = js ''deprecated''"
    | (dpl) "scope_id sc \<noteq> js ''new_features''" "scope_id sc \<noteq> js ''deprecated''"
        "scope_id sc = js ''deployment_changes''"
    | (sec) "scope_id sc \<noteq> js ''new_features''" "scope_id sc \<noteq> js ''deprecated''"
        "scope_id sc \<noteq> js ''deployment_changes''" "scope_id sc = js ''security''"
    | (brk) "scope_id sc \<noteq> js ''new_features''" "scope_id sc \<noteq> js ''deprecated''"
        "scope_id sc \<noteq> js ''deployment_changes''" "scope_id sc \<noteq> js ''security''"
        "scope_id sc = js ''breaking_changes''"
    | (mig) "scope_id sc \<noteq> js ''new_features''" "scope_id sc \<noteq> js ''deprecated''"
        "scope_id sc \<noteq> js ''deployment_changes''" "scope_id sc \<noteq> js ''security''"
        "scope_id sc \<noteq> js ''breaking_changes''" "scope_id sc = js ''migration_guide''"
    | (other) "scope_id sc \<noteq> js ''new_features''" "scope_id sc \<noteq> js ''deprecated''"
        "scope_id sc \<noteq> js ''deployment_changes''" "scope_id sc \<noteq> js ''security''"
        "scope_id sc \<noteq> js ''breaking_changes''" "scope_id sc \<noteq> js ''migration_guide''"
    by blast
  then show ?thesis
  proof cases
    case nf
    have "\<forall>b bs. buildScopeXml rt sc (b # bs) st
            = Inr ((xmlH1 (js ''New or Changed Features'') st
                    @ xmlBody (js ''The following features and sections were added or significantly updated in this release.'') st
                    @ xmlSpacer st)
                   @ concat (map (recordXml (scope_id sc) st) (b # bs)) @ [])"
      using nf unfolding buildScopeXml_def recordXml_def by simp
    then show ?thesis by blast
  next
    case dep
    show ?thesis
      by (rule table_scope_ordered [where f = deprecatedRow and cols = deprecatedCols
            and heading = "''Deprecated or Removed Features''"
            and intro = "''The following items have been removed or superseded in this release.''"])
         (use dep in \<open>simp_all add: buildScopeXml_def recordXml_def row_lengths\<close>)
  next
    case dpl
    show ?thesis
      by (rule table_scope_ordered [where f = deploymentRow and cols = deploymentCols
            and heading = "''Deployment Guide Update Notes''"
            and intro = "''The following items represent notable changes that impact how deployments should be executed.''"])
         (use dpl in \<open>simp_all add: buildScopeXml_def recordXml_def row_lengths\<close>)
  next
    case sec
    show ?thesis
      by (rule table_scope_ordered [where f = securityRow and cols = securityCols
            and heading = "''Security & Compliance Requirements''"
            and intro = "''The following security requirements, credential rules, and compliance mandates were identified.''"])
         (use sec in \<open>simp_all add: buildScopeXml_def recordXml_def row_lengths\<close>)
  next
    case brk
    have "\<forall>b bs. buildScopeXml rt sc (b # bs) st
            = Inr ((xmlH1 (js ''Breaking Changes'') st
                    @ xmlBody (js ''The following changes may break existing deployments if previous documentation was followed. Immediate review is required.'') st
                    @ xmlSpacer st)
                   @ concat (map (recordXml (scope_id sc) st) (b # bs)) @ xmlSpacer st)"
      using brk unfolding buildScopeXml_def recordXml_def by simp
    then show ?thesis by blast
  next
    case mig
    show ?thesis
      by (rule table_scope_ordered [where f = migrationRow and cols = migrationCols
            and heading = "''Summary: Key Actions for Deployment Teams''"
            and intro = "''The following actions are required when migrating from the previous release.''"])
         (use mig in \<open>simp_all add: buildScopeXml_def recordXml_def row_lengths\<close>)
  next
    case other
    have "\<forall>b bs. buildScopeXml rt sc (b # bs) st
            = Inr ((xmlH1 (scope_label sc) st @ xmlSpacer st)
                   @ concat (map (recordXml (scope_id sc) st) (b # bs)) @ xmlSpacer st)"
      using other unfolding buildScopeXml_def recordXml_def by simp
    then show ?thesis by blast
  qed
qed

lemma buildScopeXml_total: "\<exists>x. buildScopeXml rt sc bs st = Inr x"
proof (cases bs)
  case Nil
  then show ?thesis by (simp add: buildScopeXml_def)
next
  case (Cons b bs')
  with buildScopeXml_ordered [of rt sc st] show ?thesis by blast
qed

lemma contentXml_sections:
  "\<exists>secs. contentXml rt scopeList resultMap st = Inr (concat secs)
     \<and> list_all2 (\<lambda>sc x. buildScopeXml rt sc (findings resultMap sc) st = Inr x) scopeList secs"
proof (induction scopeList)
  case Nil
  then show ?case by simp
next
  case (Cons sc scs)
  then obtain secs where secs: "contentXml rt scs resultMap st = Inr (concat secs)"
    "list_all2 (\<lambda>sc x. buildScopeXml rt sc (findings resultMap sc) st = Inr x) scs secs"
    by blast
  obtain x where x: "buildScopeXml rt sc (findings resultMap sc) st = Inr x"
    using buildScopeXml_total by blast
  have "contentXml rt (sc # scs) resultMap st = Inr (concat (x # secs))"
    using secs(1) x by simp
  moreover have "list_all2 (\<lambda>sc x. buildScopeXml rt sc (findings resultMap sc) st = Inr x)
                   (sc # scs) (x # secs)"
    using secs(2) x by simp
  ultimately show ?case by blast
qed

section \<open>The parts of the archive\<close>

lemma patchPart_other: "name \<noteq> p \<Longrightarrow> patchPart files name f p = files p"
  by (simp add: patchPart_def split: option.splits)

lemma patchPart_dom: "(patchPart files name f p = None) = (files p = None)"
  by (simp add: patchPart_def split: option.splits)

lemma stripCustomXml_other:
  "\<not> startsWith p (js ''customXml/'') \<Longrightarrow> stripCustomXml files p = files p"
  by (simp add: stripCustomXml_def)

lemma stripCustomXml_custom:
  "startsWith p (js ''customXml/'') \<Longrightarrow> stripCustomXml files p = None"
  by (simp add: stripCustomXml_def)

lemma stripMetadata_dom:
  "(stripMetadata z p = None) = (startsWith p (js ''customXml/'') \<or> z p = None)"
  by (simp add: stripMetadata_def Let_def patchPart_dom stripCustomXml_def)

lemma stripMetadata_other:
  assumes "\<not> startsWith p (js ''customXml/'')"
    and "p \<noteq> js ''word/_rels/document.xml.rels''" and "p \<noteq> js ''[Content_Types].xml''"
    and "p \<noteq> js ''word/_rels/settings.xml.rels''" and "p \<noteq> js ''word/settings.xml''"
  shows "stripMetadata z p = z p"
  using assms by (simp add: stripMetadata_def Let_def patchPart_other stripCustomXml_other)

lemma docPath_plain:
  "\<not> startsWith docPath (js ''customXml/'')"
  "docPath \<noteq> js ''word/_rels/document.xml.rels''" "docPath \<noteq> js ''[Content_Types].xml''"
  "docPath \<noteq> js ''word/_rels/settings.xml.rels''" "docPath \<noteq> js ''word/settings.xml''"
  by (simp_all add: docPath_def js_def startsWith_def)

lemma stripMetadata_docPath: "stripMetadata z docPath = z docPath"
  by (rule stripMetadata_other) (rule docPath_plain)+

lemma export_returns:
  assumes "loadAsync buf = Some z" and "z docPath = Some d"
  shows "\<exists>out. exportWithTemplate rt loadAsync buf scopeList resultMap docName dt st = Inr out"
proof -
  obtain secs where "contentXml rt scopeList resultMap st = Inr (concat secs)"
    using contentXml_sections by blast
  with assms show ?thesis
    by (simp add: exportWithTemplate_def Let_def stripMetadata_docPath)
qed

text \<open>
  C3. When the archive library rejects the bytes, and when the archive has no part
  \<open>word/document.xml\<close>, the export ends with one error and hands over no archive.
\<close>

theorem export_fails:
  assumes "loadAsync buf = None \<or> (\<exists>z. loadAsync buf = Some z \<and> z docPath = None)"
  shows "exportWithTemplate rt loadAsync buf scopeList resultMap docName dt st
         = Inl (if loadAsync buf = None then ArchiveError else TypeError)"
  using assms
  by (auto simp: exportWithTemplate_def Let_def stripMetadata_docPath)

theorem export_fails_witness:
  "rejectingLoader [] = None
   \<and> exportWithTemplate sampleRuntime rejectingLoader [] [] Map.empty [] noTitle DEFAULT_STYLES
       = Inl ArchiveError
   \<and> emptyArchiveLoader [] = Some Map.empty
   \<and> exportWithTemplate sampleRuntime emptyArchiveLoader [] [] Map.empty [] noTitle
         DEFAULT_STYLES
       = Inl TypeError"
proof -
  have r: "rejectingLoader [] = None"
    by (simp add: rejectingLoader_def)
  have e: "emptyArchiveLoader [] = Some Map.empty"
    by (simp add: emptyArchiveLoader_def)
  have "exportWithTemplate sampleRuntime rejectingLoader [] [] Map.empty [] noTitle
          DEFAULT_STYLES = Inl ArchiveError"
    using export_fails [of rejectingLoader "[]"] r by simp
  moreover have "exportWithTemplate sampleRuntime emptyArchiveLoader [] [] Map.empty [] noTitle
          DEFAULT_STYLES = Inl TypeError"
    using export_fails [of emptyArchiveLoader "[]"] e by simp
  ultimately show ?thesis using r e by simp
qed

text \<open>
  C10. In the archive that a successful export hands over, every part of the template
  outside \<open>customXml/\<close> other than the four index and settings parts and
  \<open>word/document.xml\<close> has the content it had in the template, and every part of the
  template outside \<open>customXml/\<close> is still there under its path.
\<close>

theorem other_parts_untouched:
  assumes "loadAsync buf = Some z"
    and "exportWithTemplate rt loadAsync buf scopeList resultMap docName dt st = Inr out"
  shows "(\<forall>p content. z p = Some content \<and> \<not> startsWith p (js ''customXml/'')
              \<and> p \<notin> set rewrittenParts
              \<longrightarrow> archive out p = Some content)
         \<and> (\<forall>p. z p \<noteq> None \<and> \<not> startsWith p (js ''customXml/'')
              \<longrightarrow> archive out p \<noteq> None)"
proof -
  from assms obtain d content where
    out: "out = \<lparr> archive = (stripMetadata z)(docPath \<mapsto> d @ content),
                  fileName = downloadName rt dt docName \<rparr>"
    by (auto simp: exportWithTemplate_def Let_def spliceDocument_def
          split: option.splits sum.splits)
  have "archive out p = Some c"
    if "z p = Some c" "\<not> startsWith p (js ''customXml/'')" "p \<notin> set rewrittenParts" for p c
    using that by (simp add: out rewrittenParts_def stripMetadata_other)
  moreover have "archive out p \<noteq> None"
    if "z p \<noteq> None" "\<not> startsWith p (js ''customXml/'')" for p
    using that stripMetadata_dom [of z p] by (auto simp: out)
  ultimately show ?thesis by blast
qed

theorem other_parts_untouched_witness:
  "sampleLoader [] = Some sampleArchive
   \<and> (\<exists>out. exportWithTemplate sampleRuntime sampleLoader [] [] Map.empty [] noTitle
               DEFAULT_STYLES = Inr out
        \<and> archive out imagePath = Some [137, 80, 78, 71]
        \<and> archive out docPath \<noteq> None)"
proof -
  have load: "sampleLoader [] = Some sampleArchive"
    by (simp add: sampleLoader_def)
  have doc: "sampleArchive docPath = Some (js ''<w:p>x</w:p><w:sectPr/>'')"
    by (simp add: sampleArchive_def)
  have img: "sampleArchive imagePath = Some [137, 80, 78, 71]"
    by (simp add: sampleArchive_def imagePath_def docPath_def js_def)
  obtain out where out:
    "exportWithTemplate sampleRuntime sampleLoader [] [] Map.empty [] noTitle DEFAULT_STYLES
     = Inr out"
    using export_returns [where loadAsync = sampleLoader and buf = "[]" and z = sampleArchive,
        OF load doc]
    by blast
  have plain: "\<not> startsWith imagePath (js ''customXml/'')" "imagePath \<notin> set rewrittenParts"
    "\<not> startsWith docPath (js ''customXml/'')"
    by (simp_all add: imagePath_def rewrittenParts_def docPath_def js_def startsWith_def)
  from other_parts_untouched [OF load out] plain img doc
  have "archive out imagePath = Some [137, 80, 78, 71]" "archive out docPath \<noteq> None"
    by auto
  with load out show ?thesis by blast
qed

section \<open>Parsing never fails\<close>

lemma splitGo_no_match:
  "searchFrom re q pv r = None \<Longrightarrow> splitGo re cur 0 q pv r = [cur @ r]"
proof (induction r arbitrary: cur q pv)
  case Nil
  then show ?case by simp
next
  case (Cons x xs)
  from Cons.prems have m: "matchAt re q pv (x # xs) = None"
    and rest: "searchFrom re (Suc q) (Some x) xs = None"
    by (auto split: option.splits)
  show ?case using m Cons.IH [OF rest] by simp
qed

lemma split_no_match: "regexExec re s = None \<Longrightarrow> split re s = [s]"
proof (cases s)
  case Nil
  assume "regexExec re s = None"
  with Nil show ?thesis
    by (auto simp: split_def regexExec_def split: option.splits)
next
  case (Cons x xs)
  assume "regexExec re s = None"
  then have "splitGo re [] 0 0 None s = [[] @ s]"
    unfolding regexExec_def by (rule splitGo_no_match)
  with Cons show ?thesis by (simp add: split_def)
qed

lemma at_single: "at [s] 0 = Some s" "at [s] (Suc n) = None" "at [s] 1 = None" "at [s] 2 = None"
  by (simp_all add: at_def)

text \<open>
  For every string and every scope identifier the record builders return a record of
  three cells and \<open>buildScopeXml\<close> returns markup, never an error. Where the patterns
  of \<open>buildScopeXml\<close> find nothing, the records are built from the whole text.
\<close>

lemma record_builders_total:
  "(\<exists>x. buildScopeXml rt sc bullets st = Inr x)
   \<and> length (deprecatedRow s) = 3 \<and> length (deploymentRow s) = 3
   \<and> length (securityRow s) = 3 \<and> length (migrationRow s) = 3
   \<and> (regexExec dashSplitRe s = None \<longrightarrow>
        deprecatedRow s = [orElse (Some (trim s)) (slice s 0 60), parseDepStatus s, s]
        \<and> deploymentRow s = [orElse (Some (trim s)) (slice s 0 50), parseNature s, []]
        \<and> migrationRow s = [orElse (Some (trim s)) (slice s 0 30), s, parsePriority s])
   \<and> (indexOf s (js '':'') 0 = - 1 \<and> regexSearch dashSearchRe s = - 1 \<longrightarrow>
        newFeatureEntry s = (trim (slice s 0 60), []))"
proof -
  have rows: "length (deprecatedRow s) = 3" "length (deploymentRow s) = 3"
    "length (securityRow s) = 3" "length (migrationRow s) = 3"
    by (simp_all add: deprecatedRow_def deploymentRow_def securityRow_def migrationRow_def
          Let_def)
  have fallback:
    "deprecatedRow s = [orElse (Some (trim s)) (slice s 0 60), parseDepStatus s, s]
     \<and> deploymentRow s = [orElse (Some (trim s)) (slice s 0 50), parseNature s, []]
     \<and> migrationRow s = [orElse (Some (trim s)) (slice s 0 30), s, parsePriority s]"
    if "regexExec dashSplitRe s = None"
    using split_no_match [OF that]
    by (simp add: deprecatedRow_def deploymentRow_def migrationRow_def Let_def at_single
          orElse_def truthy_def trim_def)
  have feature: "newFeatureEntry s = (trim (slice s 0 60), [])"
    if "indexOf s (js '':'') 0 = - 1" "regexSearch dashSearchRe s = - 1"
    using that by (simp add: newFeatureEntry_def Let_def)
  from buildScopeXml_total rows fallback feature show ?thesis by blast
qed

lemma record_builders_total_plain:
  "regexExec dashSplitRe plainFinding = None
   \<and> indexOf plainFinding (js '':'') 0 = - 1 \<and> regexSearch dashSearchRe plainFinding = - 1
   \<and> deprecatedRow plainFinding = [plainFinding, js ''Removed'', plainFinding]
   \<and> deploymentRow plainFinding = [plainFinding, js ''Removed'', []]
   \<and> migrationRow plainFinding = [plainFinding, plainFinding, js ''High'']
   \<and> newFeatureEntry plainFinding = (plainFinding, [])"
proof -
  have h: "regexExec dashSplitRe plainFinding = None"
    "indexOf plainFinding (js '':'') 0 = - 1" "regexSearch dashSearchRe plainFinding = - 1"
    by code_simp+
  have v: "orElse (Some (trim plainFinding)) (slice plainFinding 0 60) = plainFinding"
    "orElse (Some (trim plainFinding)) (slice plainFinding 0 50) = plainFinding"
    "orElse (Some (trim plainFinding)) (slice plainFinding 0 30) = plainFinding"
    "parseDepStatus plainFinding = js ''Removed''" "parseNature plainFinding = js ''Removed''"
    "parsePriority plainFinding = js ''High''" "trim (slice plainFinding 0 60) = plainFinding"
    by code_simp+
  from record_builders_total [of sampleRuntime "\<lparr>scope_id = [], scope_label = []\<rparr>" "[]"
        DEFAULT_STYLES plainFinding] h
  show ?thesis by (simp add: v)
qed

text \<open>
  C5. The finding "Process(em dash)starts now" has no colon and no dash between white
  space, so the expected delimiter is absent. \<open>buildScopeXml\<close> does not fall back to the
  whole text: its pattern \<open>s[...]s\<close> matches the letters \<open>s\<close> around the dash, the
  feature entry is title "Proces" with detail "tarts now", and the deprecated row is
  item "Proce" with notes "tarts now".
\<close>

theorem record_without_delimiter:
  "indexOf processFinding (js '':'') 0 = - 1
   \<and> regexSearch wsDashSearchRe processFinding = - 1
   \<and> regexExec wsDashSplitRe processFinding = None
   \<and> newFeatureEntry processFinding = (js ''Proces'', js ''tarts now'')
   \<and> trim (slice processFinding 0 60) = processFinding
   \<and> newFeatureEntry processFinding \<noteq> (processFinding, [])
   \<and> deprecatedRow processFinding = [js ''Proce'', js ''Deprecated'', js ''tarts now'']
   \<and> buildDeprecatedRow processFinding = [processFinding, js ''Deprecated'', processFinding]"
  by code_simp

section \<open>The span before the injection point\<close>

lemma lastIndexDown_cases:
  "lastIndexDown s pat k = - 1
   \<or> (\<exists>j\<le>k. lastIndexDown s pat k = int j \<and> prefix pat (drop j s))"
proof (induction k)
  case 0
  then show ?case by auto
next
  case (Suc k)
  then show ?case by (auto intro: le_SucI)
qed

lemma lastIndexOf_cases:
  "lastIndexOf s pat pos = - 1
   \<or> (\<exists>j. lastIndexOf s pat pos = int j \<and> prefix pat (drop j s)
          \<and> (\<forall>p. pos = Some p \<longrightarrow> int j \<le> max p 0))"
proof -
  let ?k = "min (case pos of None \<Rightarrow> length s | Some p \<Rightarrow> clampIndex p (length s))
              (length s - length pat)"
  from lastIndexDown_cases [of s pat ?k] show ?thesis
  proof
    assume "lastIndexDown s pat ?k = - 1"
    then show ?thesis by (simp add: lastIndexOf_def Let_def)
  next
    assume "\<exists>j\<le>?k. lastIndexDown s pat ?k = int j \<and> prefix pat (drop j s)"
    then obtain j where j: "j \<le> ?k" "lastIndexDown s pat ?k = int j" "prefix pat (drop j s)"
      by blast
    have "int j \<le> max p 0" if "pos = Some p" for p
      using j(1) that by (auto simp: clampIndex_def split: if_splits)
    with j show ?thesis by (auto simp: lastIndexOf_def Let_def)
  qed
qed

lemma prefix_drop_length:
  "prefix pat (drop j s) \<Longrightarrow> pat \<noteq> [] \<Longrightarrow> j + length pat \<le> length s"
  by (cases "j < length s") (auto dest!: prefix_length_le)

lemma paragraph_end_before_sectPr:
  assumes p: "prefix (js ''</w:p>'') (drop j d)" and s: "prefix (js ''<w:sectPr'') (drop m d)"
    and le: "j \<le> m"
  shows "j + 6 \<le> m"
proof (rule ccontr)
  assume "\<not> j + 6 \<le> m"
  with le obtain k where k: "m = j + k" "k < 6"
    by (metis add.commute le_Suc_ex not_le_imp_less nat_add_left_cancel_less)
  from p obtain rest where rest: "drop j d = js ''</w:p>'' @ rest"
    by (auto simp: prefix_def)
  have "drop m d = drop k (drop j d)"
    by (simp add: k add.commute)
  with s rest have "prefix (js ''<w:sectPr'') (drop k (js ''</w:p>'' @ rest))"
    by simp
  moreover from k(2) have "k = 0 \<or> k = 1 \<or> k = 2 \<or> k = 3 \<or> k = 4 \<or> k = 5"
    by arith
  ultimately show False
    by (auto simp: js_def)
qed

lemma slice_from_start: "0 \<le> a \<Longrightarrow> slice d 0 a = take (nat a) d"
  by (simp add: slice_def sliceIndex_def Let_def min_def)

lemma sliceFrom_nonneg: "0 \<le> a \<Longrightarrow> sliceFrom d a = drop (nat a) d"
  by (simp add: sliceFrom_def sliceIndex_def min_def)

lemma bounds_with_sectPr:
  assumes "lastIndexOf d (js ''<w:sectPr'') None \<noteq> - 1"
  shows "\<exists>n m. prefixEnd (findInjectionBounds d) = int n
           \<and> suffixStart (findInjectionBounds d) = int m
           \<and> n \<le> m \<and> m \<le> length d
           \<and> (n = m \<or> suffix (js ''</w:p>'') (take n d))"
proof -
  from assms lastIndexOf_cases [of d "js ''<w:sectPr''" None]
  obtain m where m: "lastIndexOf d (js ''<w:sectPr'') None = int m"
    "prefix (js ''<w:sectPr'') (drop m d)"
    by auto
  from prefix_drop_length [OF m(2)] have mlen: "m \<le> length d"
    by (simp add: js_def)
  show ?thesis
  proof (cases "lastIndexOf d (js ''</w:p>'') (Some (int m)) = - 1")
    case True
    with m mlen show ?thesis
      by (simp add: findInjectionBounds_def Let_def)
  next
    case False
    with lastIndexOf_cases [of d "js ''</w:p>''" "Some (int m)"]
    obtain j where j: "lastIndexOf d (js ''</w:p>'') (Some (int m)) = int j"
      "prefix (js ''</w:p>'') (drop j d)" "j \<le> m"
      by auto
    from paragraph_end_before_sectPr [OF j(2) m(2) j(3)] have jm: "j + 6 \<le> m" .
    from j(2) obtain rest where rest: "drop j d = js ''</w:p>'' @ rest"
      by (auto simp: prefix_def)
    have "take (j + 6) d = take j d @ take 6 (drop j d)"
      by (simp add: take_add)
    also have "take 6 (drop j d) = js ''</w:p>''"
      unfolding rest by (simp add: js_def)
    finally have "suffix (js ''</w:p>'') (take (j + 6) d)"
      by (simp add: suffix_def)
    moreover have "prefixEnd (findInjectionBounds d) = int (j + 6)"
      using m(1) j(1) by (simp add: findInjectionBounds_def Let_def js_def)
    moreover have "suffixStart (findInjectionBounds d) = int m"
      using m(1) by (simp add: findInjectionBounds_def Let_def)
    ultimately show ?thesis using jm mlen by blast
  qed
qed

lemma updateCoverTitle_unchanged:
  \<open>\<not> truthy (title dt) \<or> indexOf d (js ''w:val="Title"'') 0 = - 1
   \<Longrightarrow> updateCoverTitle rt d dt = d\<close>
  by (auto simp: updateCoverTitle_def Let_def)

text \<open>
  C1. For every body with a \<open>sectPr\<close> block, every scope list and every result map:
  when no title is given, or the body has no \<open>Title\<close> style reference, the export
  returns a document whose span up to the injection point, which is the end of the last
  paragraph-end marker before the last \<open>sectPr\<close> block (or the start of that block
  when there is no such marker), is the same span of the input body; the span from the
  last \<open>sectPr\<close> block on is kept as well.
\<close>

theorem prefix_preserved_without_title:
  assumes load: "loadAsync buf = Some z" and doc: "z docPath = Some d"
    and sect: "lastIndexOf d (js ''<w:sectPr'') None \<noteq> - 1"
    and plain: \<open>title dt = None \<or> title dt = Some [] \<or> indexOf d (js ''w:val="Title"'') 0 = - 1\<close>
  shows "\<exists>out newDoc n m.
           exportWithTemplate rt loadAsync buf scopeList resultMap docName dt st = Inr out
           \<and> archive out docPath = Some newDoc
           \<and> prefixEnd (findInjectionBounds d) = int n
           \<and> suffixStart (findInjectionBounds d) = int m
           \<and> n \<le> m \<and> m \<le> length d
           \<and> (n = m \<or> suffix (js ''</w:p>'') (take n d))
           \<and> take n newDoc = take n d
           \<and> drop (length newDoc - (length d - m)) newDoc = drop m d"
proof -
  obtain secs where content: "contentXml rt scopeList resultMap st = Inr (concat secs)"
    using contentXml_sections by blast
  from plain have same: "updateCoverTitle rt d dt = d"
    by (intro updateCoverTitle_unchanged) (auto simp: truthy_def)
  from bounds_with_sectPr [OF sect] obtain n m where
    b: "prefixEnd (findInjectionBounds d) = int n" "suffixStart (findInjectionBounds d) = int m"
      "n \<le> m" "m \<le> length d" "n = m \<or> suffix (js ''</w:p>'') (take n d)"
    by blast
  let ?new = "take n d @ concat secs @ drop m d"
  have splice: "spliceDocument d (concat secs) = ?new"
    using b(1,2) by (simp add: spliceDocument_def Let_def slice_from_start sliceFrom_nonneg)
  have "exportWithTemplate rt loadAsync buf scopeList resultMap docName dt st
        = Inr \<lparr> archive = (stripMetadata z)(docPath \<mapsto> ?new),
                fileName = downloadName rt dt docName \<rparr>"
    using load doc content same splice
    by (simp add: exportWithTemplate_def Let_def stripMetadata_docPath)
  moreover have "take n ?new = take n d"
    using b(3,4) by simp
  moreover have "drop (length ?new - (length d - m)) ?new = drop m d"
    using b(3,4) by simp
  ultimately show ?thesis using b by force
qed


theorem prefix_preserved_without_title_witness:
  "sampleLoader [] = Some sampleArchive
   \<and> sampleArchive docPath = Some (js ''<w:p>x</w:p><w:sectPr/>'')
   \<and> lastIndexOf (js ''<w:p>x</w:p><w:sectPr/>'') (js ''<w:sectPr'') None \<noteq> - 1
   \<and> title noTitle = None
   \<and> (\<exists>out newDoc.
          exportWithTemplate sampleRuntime sampleLoader [] [] Map.empty [] noTitle DEFAULT_STYLES
            = Inr out
          \<and> archive out docPath = Some newDoc
          \<and> take 12 newDoc = js ''<w:p>x</w:p>'')"
proof -
  have load: "sampleLoader [] = Some sampleArchive"
    by (simp add: sampleLoader_def)
  have doc: "sampleArchive docPath = Some (js ''<w:p>x</w:p><w:sectPr/>'')"
    by (simp add: sampleArchive_def)
  have sect: "lastIndexOf (js ''<w:p>x</w:p><w:sectPr/>'') (js ''<w:sectPr'') None \<noteq> - 1"
    by code_simp
  have plain: "title noTitle = None"
    by (simp add: noTitle_def)
  have pe: "prefixEnd (findInjectionBounds (js ''<w:p>x</w:p><w:sectPr/>'')) = 12"
    by code_simp
  have tk: "take 12 (js ''<w:p>x</w:p><w:sectPr/>'') = js ''<w:p>x</w:p>''"
    by code_simp
  from prefix_preserved_without_title
         [where loadAsync = sampleLoader and buf = "[]" and z = sampleArchive
            and dt = noTitle and rt = sampleRuntime and scopeList = "[]"
            and resultMap = Map.empty and docName = "[]" and st = DEFAULT_STYLES,
          OF load doc sect disjI1 [OF plain]]
  obtain out newDoc n where
    "exportWithTemplate sampleRuntime sampleLoader [] [] Map.empty [] noTitle DEFAULT_STYLES
     = Inr out"
    "archive out docPath = Some newDoc"
    "prefixEnd (findInjectionBounds (js ''<w:p>x</w:p><w:sectPr/>'')) = int n"
    "take n newDoc = take n (js ''<w:p>x</w:p><w:sectPr/>'')"
    by blast
  moreover from this(3) pe have "n = 12" by simp
  ultimately show ?thesis using load doc sect plain tk by auto
qed

text \<open>With a title and a \<open>Title\<close> paragraph in the cover, \<open>updateCoverTitle\<close>
  rewrites that paragraph before the injection point is looked for: the span of the
  output before the injection point is not the span of the input.\<close>

theorem prefix_changed_by_title:
  \<open>lastIndexOf coverBody (js ''<w:sectPr'') None \<noteq> - 1
   \<and> prefixEnd (findInjectionBounds coverBody) = 76
   \<and> exportedDocument
         (exportWithTemplate sampleRuntime coverLoader [] [] Map.empty [] newTitle
            DEFAULT_STYLES)
       = Some (js ''<w:p><w:pPr><w:pStyle w:val="Title"/></w:pPr><w:r><w:t xml:space="preserve">NEW</w:t></w:r></w:p><w:sectPr/>'')
   \<and> take 76 (js ''<w:p><w:pPr><w:pStyle w:val="Title"/></w:pPr><w:r><w:t xml:space="preserve">NEW</w:t></w:r></w:p><w:sectPr/>'')
       \<noteq> take 76 coverBody\<close>
  by code_simp

section \<open>The resolved style map\<close>

lemma matchAtoms_range:
  "matchAtoms as p pv r cs = Some (e, cs') \<Longrightarrow> p \<le> e \<and> e \<le> p + length r"
  by (induction as p pv r cs rule: matchAtoms.induct)
     (fastforce split: if_splits option.splits)+

lemma matchAtoms_Ch:
  "(matchAtoms (Ch c # as) p pv r cs = Some res)
   = (\<exists>x xs. r = x # xs \<and> c x \<and> matchAtoms as (Suc p) (Some x) xs cs = Some res)"
  by (cases r) auto

lemma matchAtoms_Ch_progress:
  "matchAtoms (Ch c # as) p pv r cs = Some (e, cs') \<Longrightarrow> p < e"
  by (auto simp: matchAtoms_Ch dest: matchAtoms_range)

lemma execAllGo_returns:
  assumes progress: "\<And>p pv r e cs. matchAt re p pv r = Some (e, cs) \<Longrightarrow> p < e \<and> e \<le> p + length r"
  shows "\<exists>ms. execAllGo re skip p pv r = Some ms"
proof (induction r arbitrary: skip p pv)
  case Nil
  have "matchAt re p pv [] = None"
    using progress [of p pv "[]"] by (cases "matchAt re p pv []") auto
  then show ?case by simp
next
  case (Cons x xs)
  show ?case
  proof (cases "0 < skip")
    case True
    with Cons [of "skip - 1" "Suc p" "Some x"] show ?thesis by simp
  next
    case False
    show ?thesis
    proof (cases "matchAt re p pv (x # xs)")
      case None
      with False Cons [of 0 "Suc p" "Some x"] show ?thesis by simp
    next
      case (Some res)
      obtain e cs where res: "res = (e, cs)" by (cases res)
      with Some progress [of p pv "x # xs" e cs] have "p < e" by simp
      with Some res False Cons [of "e - p - 1" "Suc p" "Some x"] show ?thesis by auto
    qed
  qed
qed

lemma styleRe_progress:
  "matchAt styleRe p pv r = Some (e, cs) \<Longrightarrow> p < e \<and> e \<le> p + length r"
  unfolding styleRe_def lit_def
  by (auto split: option.splits dest: matchAtoms_Ch_progress matchAtoms_range)

lemma execAll_styleRe: "\<exists>ms. execAll styleRe xml = Some ms"
  unfolding execAll_def by (rule execAllGo_returns) (rule styleRe_progress)

lemma searchFrom_Some:
  "searchFrom re p pv r = Some (b, e, cs) \<Longrightarrow>
   \<exists>k pv'. b = p + k \<and> k \<le> length r \<and> matchAt re b pv' (drop k r) = Some (e, cs)"
proof (induction r arbitrary: p pv)
  case Nil
  then show ?case by (auto split: option.splits)
next
  case (Cons x xs)
  show ?case
  proof (cases "matchAt re p pv (x # xs)")
    case None
    with Cons.prems have "searchFrom re (Suc p) (Some x) xs = Some (b, e, cs)" by simp
    from Cons.IH [OF this] obtain k pv' where
      "b = Suc p + k" "k \<le> length xs" "matchAt re b pv' (drop k xs) = Some (e, cs)"
      by blast
    then have "b = p + Suc k \<and> Suc k \<le> length (x # xs)
               \<and> matchAt re b pv' (drop (Suc k) (x # xs)) = Some (e, cs)"
      by simp
    then show ?thesis by blast
  next
    case (Some res)
    with Cons.prems have "b = p + 0 \<and> 0 \<le> length (x # xs)
        \<and> matchAt re b pv (drop 0 (x # xs)) = Some (e, cs)"
      by auto
    then show ?thesis by blast
  qed
qed

lemma regexExec_Some:
  "regexExec re s = Some (b, e, cs) \<Longrightarrow>
   b \<le> length s \<and> (\<exists>pv. matchAt re b pv (drop b s) = Some (e, cs))"
  unfolding regexExec_def by (drule searchFrom_Some) auto

lemma fillRe_match:
  assumes "matchAt fillRe b pv r = Some (e, cs)"
  shows "\<exists>t. take 6 (drop 8 r) = t \<and> length t = 6 \<and> list_all isHexDigit t
           \<and> cs 1 = Some (b + 8, b + 14)"
  using assms unfolding fillRe_def lit_def
  by (auto simp: matchAtoms_Ch closeGroup_def eval_nat_numeral split: option.splits)

lemma fill_group:
  assumes "regexExec fillRe d = Some (b, e, cs)"
  shows "groupText d cs 1 = take 6 (drop (b + 8) d)
         \<and> length (take 6 (drop (b + 8) d)) = 6
         \<and> list_all isHexDigit (take 6 (drop (b + 8) d))"
proof -
  from regexExec_Some [OF assms] obtain pv where
    m: "matchAt fillRe b pv (drop b d) = Some (e, cs)"
    by blast
  from fillRe_match [OF m] have t: "length (take 6 (drop 8 (drop b d))) = 6"
    "list_all isHexDigit (take 6 (drop 8 (drop b d)))" "cs 1 = Some (b + 8, b + 14)"
    by auto
  have "drop 8 (drop b d) = drop (b + 8) d"
    by (simp add: add.commute)
  with t show ?thesis
    by (simp add: groupText_def group_def)
qed

lemma toUpperCase_hex:
  "list_all isHexDigit t \<Longrightarrow> toUpperCase rt t = map upperAscii t"
proof -
  assume "list_all isHexDigit t"
  then have "list_all (\<lambda>c. c < 128) t"
    by (induction t) (auto simp: isHexDigit_def isDigit_def)
  then show ?thesis by (simp add: toUpperCase_def)
qed

lemma detectFill_match:
  assumes "z docPath = Some d" and "regexExec fillRe d = Some (b, e, cs)"
  shows "detectFill rt z = map upperAscii (take 6 (drop (b + 8) d))"
  using assms fill_group [OF assms(2)] by (simp add: detectFill_def toUpperCase_hex)

lemma detectFill_nonempty: "detectFill rt z \<noteq> []"
proof (cases "z docPath")
  case None
  then show ?thesis by (simp add: detectFill_def DEFAULT_STYLES_def js_def)
next
  case (Some d)
  show ?thesis
  proof (cases "regexExec fillRe d")
    case None
    with Some show ?thesis by (simp add: detectFill_def DEFAULT_STYLES_def js_def)
  next
    case (Some res)
    obtain b e cs where "res = (b, e, cs)" by (cases res)
    with Some \<open>z docPath = Some d\<close> have m: "regexExec fillRe d = Some (b, e, cs)" by simp
    from fill_group [OF m] have "length (detectFill rt z) = 6"
      unfolding detectFill_match [where z = z and d = d, OF \<open>z docPath = Some d\<close> m] by simp
    then show ?thesis by auto
  qed
qed

lemma orElse_nonempty: "d \<noteq> [] \<Longrightarrow> orElse a d \<noteq> []"
  by (auto simp: orElse_def split: option.splits)

lemma default_styles_nonempty:
  "h1 DEFAULT_STYLES \<noteq> []" "h2 DEFAULT_STYLES \<noteq> []" "body DEFAULT_STYLES \<noteq> []"
  "bullet DEFAULT_STYLES \<noteq> []" "tableHeader DEFAULT_STYLES \<noteq> []"
  "tableText DEFAULT_STYLES \<noteq> []" "tableGrid DEFAULT_STYLES \<noteq> []"
  "fill DEFAULT_STYLES \<noteq> []"
  by (simp_all add: DEFAULT_STYLES_def js_def)

text \<open>
  C6. For every archive that the archive library opens, with or without a style
  catalogue and whatever the catalogue holds, \<open>detectTemplateStyles\<close> returns a style
  map, and each of its eight roles is a non-empty string.
\<close>

theorem styles_never_empty:
  assumes "loadAsync buf = Some z"
  shows "\<exists>st. detectTemplateStyles rt loadAsync buf = Some (Inr st)
           \<and> h1 st \<noteq> [] \<and> h2 st \<noteq> [] \<and> body st \<noteq> [] \<and> bullet st \<noteq> []
           \<and> tableHeader st \<noteq> [] \<and> tableText st \<noteq> [] \<and> tableGrid st \<noteq> []
           \<and> fill st \<noteq> []"
proof (cases "z stylesPath")
  case None
  with assms show ?thesis
    by (simp add: detectTemplateStyles_def default_styles_nonempty)
next
  case (Some xml)
  obtain ms where "execAll styleRe xml = Some ms"
    using execAll_styleRe by blast
  with assms Some show ?thesis
    by (simp add: detectTemplateStyles_def Let_def orElse_nonempty default_styles_nonempty
          detectFill_nonempty)
qed

theorem styles_never_empty_witness:
  "catalogueLoader [] = Some [stylesPath \<mapsto> sampleCatalogue, docPath \<mapsto> fillBody]
   \<and> detectTemplateStyles sampleRuntime catalogueLoader []
       = Some (Inr (DEFAULT_STYLES \<lparr> h1 := js ''MyH1'', fill := js ''FF00AA'' \<rparr>))
   \<and> h1 (DEFAULT_STYLES \<lparr> h1 := js ''MyH1'', fill := js ''FF00AA'' \<rparr>) \<noteq> []
   \<and> fill (DEFAULT_STYLES \<lparr> h1 := js ''MyH1'', fill := js ''FF00AA'' \<rparr>) \<noteq> []"
proof -
  have load: "catalogueLoader [] = Some [stylesPath \<mapsto> sampleCatalogue, docPath \<mapsto> fillBody]"
    by (simp add: catalogueLoader_def)
  have val: "detectTemplateStyles sampleRuntime catalogueLoader []
       = Some (Inr (DEFAULT_STYLES \<lparr> h1 := js ''MyH1'', fill := js ''FF00AA'' \<rparr>))"
    by code_simp
  from styles_never_empty
         [where loadAsync = catalogueLoader and buf = "[]" and rt = sampleRuntime, OF load]
       val load
  show ?thesis
    by auto
qed

text \<open>
  C9. For every archive with a style catalogue whose main document part holds an
  attribute \<open>w:fill\<close> of six hexadecimal digits, the accent fill of the resolved style
  map is the first such value in upper case. An archive without a style catalogue
  resolves to the compiled-in defaults, whatever its document part holds.
\<close>

theorem fill_from_document:
  assumes "loadAsync buf = Some z"
  shows "(z stylesPath = None \<longrightarrow>
            detectTemplateStyles rt loadAsync buf = Some (Inr DEFAULT_STYLES))
         \<and> (\<forall>xml d b e cs.
               z stylesPath = Some xml \<and> z docPath = Some d
               \<and> regexExec fillRe d = Some (b, e, cs) \<longrightarrow>
               (\<exists>st. detectTemplateStyles rt loadAsync buf = Some (Inr st)
                  \<and> fill st = map upperAscii (take 6 (drop (b + 8) d))
                  \<and> list_all isHexDigit (take 6 (drop (b + 8) d))
                  \<and> length (fill st) = 6))"
proof (intro conjI impI allI)
  assume "z stylesPath = None"
  with assms show "detectTemplateStyles rt loadAsync buf = Some (Inr DEFAULT_STYLES)"
    by (simp add: detectTemplateStyles_def)
next
  fix xml d b e cs
  assume a: "z stylesPath = Some xml \<and> z docPath = Some d
             \<and> regexExec fillRe d = Some (b, e, cs)"
  obtain ms where ms: "execAll styleRe xml = Some ms"
    using execAll_styleRe by blast
  from a have m: "regexExec fillRe d = Some (b, e, cs)" and doc: "z docPath = Some d"
    by simp_all
  from assms a ms fill_group [OF m]
  show "\<exists>st. detectTemplateStyles rt loadAsync buf = Some (Inr st)
          \<and> fill st = map upperAscii (take 6 (drop (b + 8) d))
          \<and> list_all isHexDigit (take 6 (drop (b + 8) d))
          \<and> length (fill st) = 6"
    by (simp add: detectTemplateStyles_def Let_def
          detectFill_match [where z = z and d = d, OF doc m])
qed

theorem fill_from_document_witness:
  "catalogueLoader [] = Some [stylesPath \<mapsto> sampleCatalogue, docPath \<mapsto> fillBody]
   \<and> regexTest fillRe fillBody
   \<and> (\<exists>st. detectTemplateStyles sampleRuntime catalogueLoader [] = Some (Inr st)
         \<and> fill st = js ''FF00AA'')
   \<and> noCatalogueLoader [] = Some [docPath \<mapsto> fillBody]
   \<and> detectTemplateStyles sampleRuntime noCatalogueLoader [] = Some (Inr DEFAULT_STYLES)"
proof -
  have load: "catalogueLoader [] = Some [stylesPath \<mapsto> sampleCatalogue, docPath \<mapsto> fillBody]"
    by (simp add: catalogueLoader_def)
  have load2: "noCatalogueLoader [] = Some [docPath \<mapsto> fillBody]"
    by (simp add: noCatalogueLoader_def)
  have paths: "stylesPath \<noteq> docPath"
    by (simp add: stylesPath_def docPath_def js_def)
  have t: "regexTest fillRe fillBody"
    by code_simp
  then obtain b e cs where m: "regexExec fillRe fillBody = Some (b, e, cs)"
    by (auto simp: regexTest_def)
  have b: "regexSearch fillRe fillBody = 7"
    by code_simp
  with m have b7: "b = 7" by (simp add: regexSearch_def)
  have v: "map upperAscii (take 6 (drop (7 + 8) fillBody)) = js ''FF00AA''"
    by code_simp
  from fill_from_document
         [where loadAsync = catalogueLoader and buf = "[]" and rt = sampleRuntime, OF load]
       paths m
  have "\<exists>st. detectTemplateStyles sampleRuntime catalogueLoader [] = Some (Inr st)
          \<and> fill st = map upperAscii (take 6 (drop (b + 8) fillBody))"
    by auto
  moreover from fill_from_document
         [where loadAsync = noCatalogueLoader and buf = "[]" and rt = sampleRuntime, OF load2]
       paths
  have "detectTemplateStyles sampleRuntime noCatalogueLoader [] = Some (Inr DEFAULT_STYLES)"
    by auto
  ultimately show ?thesis using load load2 t v b7 by auto
qed

text \<open>The document part of this archive holds \<open>w:fill="ff00aa"\<close>, the archive has no
  style catalogue, and the accent fill is the default \<open>0073E6\<close>.\<close>

theorem fill_ignored_without_catalogue:
  "noCatalogueLoader [] = Some [docPath \<mapsto> fillBody]
   \<and> regexTest fillRe fillBody
   \<and> detectTemplateStyles sampleRuntime noCatalogueLoader [] = Some (Inr DEFAULT_STYLES)
   \<and> fill DEFAULT_STYLES = js ''0073E6''
   \<and> js ''0073E6'' \<noteq> js ''FF00AA''"
proof -
  have "noCatalogueLoader [] = Some [docPath \<mapsto> fillBody]"
    by (simp add: noCatalogueLoader_def)
  moreover have "regexTest fillRe fillBody"
    by code_simp
  moreover have "detectTemplateStyles sampleRuntime noCatalogueLoader [] = Some (Inr DEFAULT_STYLES)"
    by code_simp
  moreover have "fill DEFAULT_STYLES = js ''0073E6''" "js ''0073E6'' \<noteq> js ''FF00AA''"
    by (simp_all add: DEFAULT_STYLES_def js_def)
  ultimately show ?thesis by simp
qed

section \<open>The section of a scope without findings\<close>

lemma replaceGo_char:
  "replaceGo [[Ch c]] rep 0 p pv s = concat (map (\<lambda>x. if c x then rep else [x]) s)"
  by (induction s arbitrary: p pv) simp_all

lemma replaceAll_char:
  "replaceAll [[Ch c]] rep s = concat (map (\<lambda>x. if c x then rep else [x]) s)"
  by (simp add: replaceAll_def replaceGo_char)

lemma xmlEsc_no_lt: "60 \<notin> set (xmlEsc s)"
  by (auto simp: xmlEsc_def lit_def replaceAll_char js_def split: if_splits)

lemma occurrences_skip:
  "60 \<notin> set a \<Longrightarrow> occurrences (60 # pat) (a @ b) = occurrences (60 # pat) b"
  by (induction a) auto

lemma prefix_upto_quote:
  "34 \<notin> set x \<Longrightarrow> 34 \<notin> set y \<Longrightarrow>
   prefix (x @ 34 # p) (y @ 34 # q) = (x = y \<and> prefix p q)"
proof (induction x arbitrary: y)
  case Nil
  then show ?case by (cases y) auto
next
  case (Cons a x)
  then show ?case by (cases y) auto
qed

lemma plainId_sets: "plainId s \<Longrightarrow> 60 \<notin> set s \<and> 34 \<notin> set s"
  by (auto simp: plainId_def list_all_iff)

lemma no_table_count:
  assumes "plainId a" and "plainId b" and "60 \<notin> set t" and "60 \<notin> set u"
  shows \<open>occurrences (js ''<w:tbl'')
           (js ''<w:p><w:pPr><w:pStyle w:val="'' @ a
            @ js ''"/></w:pPr><w:r><w:t xml:space="preserve">'' @ t @ js ''</w:t></w:r></w:p>''
            @ js ''<w:p><w:pPr><w:pStyle w:val="'' @ b
            @ js ''"/></w:pPr><w:r><w:t xml:space="preserve">'' @ u @ js ''</w:t></w:r></w:p>''
            @ js ''<w:p><w:pPr><w:pStyle w:val="'' @ b @ js ''"/></w:pPr></w:p>'') = 0\<close>
  using assms plainId_sets [of a] plainId_sets [of b]
  by (simp add: js_def occurrences_skip)

lemma paragraph_count:
  assumes "plainId a" and "plainId b" and "60 \<notin> set t" and "60 \<notin> set u"
  shows \<open>occurrences (js ''<w:p>'')
           (js ''<w:p><w:pPr><w:pStyle w:val="'' @ a
            @ js ''"/></w:pPr><w:r><w:t xml:space="preserve">'' @ t @ js ''</w:t></w:r></w:p>''
            @ js ''<w:p><w:pPr><w:pStyle w:val="'' @ b
            @ js ''"/></w:pPr><w:r><w:t xml:space="preserve">'' @ u @ js ''</w:t></w:r></w:p>''
            @ js ''<w:p><w:pPr><w:pStyle w:val="'' @ b @ js ''"/></w:pPr></w:p>'') = 3\<close>
  using assms plainId_sets [of a] plainId_sets [of b]
  by (simp add: js_def occurrences_skip)

lemma heading_count:
  assumes "plainId a" and "plainId b" and "a \<noteq> b" and "60 \<notin> set t" and "60 \<notin> set u"
  shows \<open>occurrences (pStyleTag a)
           (js ''<w:p><w:pPr><w:pStyle w:val="'' @ a
            @ js ''"/></w:pPr><w:r><w:t xml:space="preserve">'' @ t @ js ''</w:t></w:r></w:p>''
            @ js ''<w:p><w:pPr><w:pStyle w:val="'' @ b
            @ js ''"/></w:pPr><w:r><w:t xml:space="preserve">'' @ u @ js ''</w:t></w:r></w:p>''
            @ js ''<w:p><w:pPr><w:pStyle w:val="'' @ b @ js ''"/></w:pPr></w:p>'') = 1\<close>
  using assms plainId_sets [of a] plainId_sets [of b]
  by (simp add: js_def pStyleTag_def occurrences_skip prefix_upto_quote)

lemma body_text_count:
  assumes "plainId a" and "plainId b" and "a \<noteq> b" and "60 \<notin> set t" and "60 \<notin> set u"
  shows \<open>occurrences (pStyleTag b @ js ''</w:pPr><w:r>'')
           (js ''<w:p><w:pPr><w:pStyle w:val="'' @ a
            @ js ''"/></w:pPr><w:r><w:t xml:space="preserve">'' @ t @ js ''</w:t></w:r></w:p>''
            @ js ''<w:p><w:pPr><w:pStyle w:val="'' @ b
            @ js ''"/></w:pPr><w:r><w:t xml:space="preserve">'' @ u @ js ''</w:t></w:r></w:p>''
            @ js ''<w:p><w:pPr><w:pStyle w:val="'' @ b @ js ''"/></w:pPr></w:p>'') = 1\<close>
  using assms plainId_sets [of a] plainId_sets [of b]
  by (simp add: js_def pStyleTag_def occurrences_skip prefix_upto_quote)

text \<open>
  C8. For every scope, with style identifiers that hold neither \<open><\<close> nor a double
  quote and differ between heading and body, the markup of an empty finding list is a
  heading paragraph, a body paragraph with the text "No ... identified in this
  document." and an empty spacer paragraph: one paragraph in the heading style, one
  body-style paragraph with text, three paragraphs in all, and no table element.
\<close>

theorem empty_scope_fragment:
  assumes "plainId (h1 st)" and "plainId (body st)" and "h1 st \<noteq> body st"
  shows "\<exists>out. buildScopeXml rt sc [] st = Inr out
           \<and> out = xmlH1 (scope_label sc) st
                   @ xmlBody (js ''No '' @ toLowerCase rt (scope_label sc)
                              @ js '' identified in this document.'') st
                   @ xmlSpacer st
           \<and> occurrences (pStyleTag (h1 st)) out = 1
           \<and> occurrences (pStyleTag (body st) @ js ''</w:pPr><w:r>'') out = 1
           \<and> occurrences (js ''<w:p>'') out = 3
           \<and> occurrences (js ''<w:tbl'') out = 0"
proof -
  let ?t = "xmlEsc (scope_label sc)"
  let ?u = "xmlEsc (js ''No '' @ toLowerCase rt (scope_label sc)
                    @ js '' identified in this document.'')"
  have esc: "60 \<notin> set ?t" "60 \<notin> set ?u"
    by (rule xmlEsc_no_lt)+
  show ?thesis
    unfolding buildScopeXml_def xmlH1_def xmlBody_def xmlSpacer_def styledPara_def
    using heading_count [OF assms esc] body_text_count [OF assms esc]
      paragraph_count [OF assms(1,2) esc] no_table_count [OF assms(1,2) esc]
    by simp
qed

theorem empty_scope_fragment_witness:
  \<open>plainId (h1 DEFAULT_STYLES) \<and> plainId (body DEFAULT_STYLES)
   \<and> h1 DEFAULT_STYLES \<noteq> body DEFAULT_STYLES
   \<and> (\<exists>out. buildScopeXml sampleRuntime sampleScope [] DEFAULT_STYLES = Inr out
         \<and> out = js ''<w:p><w:pPr><w:pStyle w:val="Heading1"/></w:pPr><w:r><w:t xml:space="preserve">Security &amp; Compliance</w:t></w:r></w:p><w:p><w:pPr><w:pStyle w:val="BodyText"/></w:pPr><w:r><w:t xml:space="preserve">No security &amp; compliance identified in this document.</w:t></w:r></w:p><w:p><w:pPr><w:pStyle w:val="BodyText"/></w:pPr></w:p>''
         \<and> occurrences (pStyleTag (h1 DEFAULT_STYLES)) out = 1
         \<and> occurrences (js ''<w:p>'') out = 3
         \<and> occurrences (js ''<w:tbl'') out = 0)\<close>
proof -
  have ids: "plainId (h1 DEFAULT_STYLES)" "plainId (body DEFAULT_STYLES)"
    "h1 DEFAULT_STYLES \<noteq> body DEFAULT_STYLES"
    by code_simp+
  have val: \<open>buildScopeXml sampleRuntime sampleScope [] DEFAULT_STYLES
             = Inr (js ''<w:p><w:pPr><w:pStyle w:val="Heading1"/></w:pPr><w:r><w:t xml:space="preserve">Security &amp; Compliance</w:t></w:r></w:p><w:p><w:pPr><w:pStyle w:val="BodyText"/></w:pPr><w:r><w:t xml:space="preserve">No security &amp; compliance identified in this document.</w:t></w:r></w:p><w:p><w:pPr><w:pStyle w:val="BodyText"/></w:pPr></w:p>'')\<close>
    by code_simp
  from empty_scope_fragment [OF ids, of sampleRuntime sampleScope] val ids
  show ?thesis by auto
qed

section \<open>Findings in the generated markup\<close>

lemma xmlEsc_escaped: "xmlEsc s = escaped s"
proof (induction s)
  case Nil
  then show ?case by (simp add: xmlEsc_def escaped_def replaceAll_char lit_def)
next
  case (Cons x xs)
  then show ?case
    by (simp add: xmlEsc_def escaped_def escapeChar_def replaceAll_char lit_def js_def)
qed

lemma styledPara_frame:
  \<open>styledPara style text
   = (js ''<w:p><w:pPr><w:pStyle w:val="'' @ style
      @ js ''"/></w:pPr><w:r><w:t xml:space="preserve">'')
     @ escaped text @ js ''</w:t></w:r></w:p>''\<close>
  by (simp add: styledPara_def xmlEsc_escaped)

lemma bullet_frame: "\<exists>frame. \<forall>b. xmlBullet b st = fillFrame frame [b]"
proof (intro exI allI)
  fix b
  show \<open>xmlBullet b st
        = fillFrame [js ''<w:p><w:pPr><w:pStyle w:val="'' @ bullet st
                     @ js ''"/></w:pPr><w:r><w:t xml:space="preserve">'',
                     js ''</w:t></w:r></w:p>''] [b]\<close>
    by (simp add: xmlBullet_def styledPara_frame)
qed

lemma feature_frame:
  "\<exists>frame. \<forall>b. (case newFeatureEntry b of
                    (t, detail) \<Rightarrow> xmlH2 t st @ xmlBody detail st @ xmlSpacer st)
                 = fillFrame frame (case newFeatureEntry b of (t, detail) \<Rightarrow> [t, detail])"
proof (intro exI allI)
  fix b
  show \<open>(case newFeatureEntry b of
           (t, detail) \<Rightarrow> xmlH2 t st @ xmlBody detail st @ xmlSpacer st)
        = fillFrame [js ''<w:p><w:pPr><w:pStyle w:val="'' @ h2 st
                     @ js ''"/></w:pPr><w:r><w:t xml:space="preserve">'',
                     js ''</w:t></w:r></w:p>''
                     @ js ''<w:p><w:pPr><w:pStyle w:val="'' @ body st
                     @ js ''"/></w:pPr><w:r><w:t xml:space="preserve">'',
                     js ''</w:t></w:r></w:p>'' @ xmlSpacer st]
            (case newFeatureEntry b of (t, detail) \<Rightarrow> [t, detail])\<close>
    by (cases "newFeatureEntry b") (simp add: xmlH2_def xmlBody_def styledPara_frame)
qed

lemma row_frame:
  assumes "\<And>b. length (f b) = 3" and "length cols = 3"
  shows "\<exists>frame. \<forall>b. rowMarkup cols st (f b) = fillFrame frame (f b)"
proof -
  from assms(2) obtain k1 k2 k3 where cols: "cols = [k1, k2, k3]"
    by (auto simp: length_Suc_conv eval_nat_numeral)
  let ?open = "\<lambda>k. js ''<w:tc><w:tcPr><w:tcW w:w=\"'' @ numberToString (w k)
                  @ js ''\" w:type=\"dxa\"/></w:tcPr>''
                  @ js ''<w:p><w:pPr><w:pStyle w:val=\"'' @ tableText st
                  @ js ''\"/></w:pPr><w:r><w:t xml:space=\"preserve\">''"
  let ?close = "js ''</w:t></w:r></w:p></w:tc>''"
  have "rowMarkup cols st (f b)
        = fillFrame [js ''<w:tr>'' @ ?open k1, ?close @ ?open k2, ?close @ ?open k3,
                     ?close @ js ''</w:tr>''] (f b)" for b
  proof -
    from assms(1) [of b] obtain c1 c2 c3 where "f b = [c1, c2, c3]"
      by (auto simp: length_Suc_conv eval_nat_numeral)
    then show ?thesis
      by (simp add: cols rowMarkup_def dataCell_def xmlEsc_escaped)
  qed
  then show ?thesis by blast
qed

lemma row_lengths3:
  "length (deprecatedRow b) = 3" "length (deploymentRow b) = 3"
  "length (securityRow b) = 3" "length (migrationRow b) = 3"
  "length deprecatedCols = 3" "length deploymentCols = 3"
  "length securityCols = 3" "length migrationCols = 3"
  by (simp_all add: deprecatedRow_def deploymentRow_def securityRow_def migrationRow_def
        deprecatedCols_def deploymentCols_def securityCols_def migrationCols_def Let_def)

lemma frame_if:
  assumes "c \<Longrightarrow> \<exists>frame. \<forall>b. x b = fillFrame frame (p b)"
    and "\<not> c \<Longrightarrow> \<exists>frame. \<forall>b. y b = fillFrame frame (q b)"
  shows "\<exists>frame. \<forall>b. (if c then x b else y b) = fillFrame frame (if c then p b else q b)"
  using assms by (cases c) simp_all

lemma record_frame:
  "\<exists>frame. \<forall>b. recordXml sid st b = fillFrame frame (parsedRecord sid b)"
  unfolding recordXml_def parsedRecord_def
  by (intro frame_if feature_frame bullet_frame row_frame row_lengths3)


text \<open>Two scopes, the first without findings, the second with a finding that comes
  twice.\<close>

lemma contentXml_sample:
  \<open>contentXml sampleRuntime [breakingScope, notesScope] sampleResults DEFAULT_STYLES
   = Inr (js ''<w:p><w:pPr><w:pStyle w:val="Heading1"/></w:pPr><w:r><w:t xml:space="preserve">Breaking Changes</w:t></w:r></w:p><w:p><w:pPr><w:pStyle w:val="BodyText"/></w:pPr><w:r><w:t xml:space="preserve">No breaking changes identified in this document.</w:t></w:r></w:p><w:p><w:pPr><w:pStyle w:val="BodyText"/></w:pPr></w:p><w:p><w:pPr><w:pStyle w:val="Heading1"/></w:pPr><w:r><w:t xml:space="preserve">Notes</w:t></w:r></w:p><w:p><w:pPr><w:pStyle w:val="BodyText"/></w:pPr></w:p><w:p><w:pPr><w:pStyle w:val="ListBullet"/></w:pPr><w:r><w:t xml:space="preserve">b&lt;c</w:t></w:r></w:p><w:p><w:pPr><w:pStyle w:val="ListBullet"/></w:pPr><w:r><w:t xml:space="preserve">a</w:t></w:r></w:p><w:p><w:pPr><w:pStyle w:val="ListBullet"/></w:pPr><w:r><w:t xml:space="preserve">b&lt;c</w:t></w:r></w:p><w:p><w:pPr><w:pStyle w:val="BodyText"/></w:pPr></w:p>'')\<close>
  by code_simp

text \<open>
  C7. The generated markup is the concatenation, in the order of the scope list, of one
  section for each scope of the list, built from the findings that the result map holds
  for the scope's identifier (none when it holds no entry). Every section with findings
  is a head, then one piece of markup for each finding in the order of the findings, then
  a tail; the piece of a finding holds the escaped fields of its record, in order, in a
  frame that is the same for all findings. Head, frame and tail do not depend on the
  findings: nothing is reordered, merged or left out.
\<close>

theorem sections_and_records_in_order:
  "(\<exists>secs. contentXml rt scopeList resultMap st = Inr (concat secs)
      \<and> list_all2
            (\<lambda>sc x. buildScopeXml rt sc
                       (case resultMap (scope_id sc) of None \<Rightarrow> [] | Some bs \<Rightarrow> bs) st
                     = Inr x)
            scopeList secs)
   \<and> (\<exists>head frame tail. \<forall>b bs. buildScopeXml rt sc (b # bs) st
          = Inr (head
                 @ concat (map (\<lambda>b. fillFrame frame (parsedRecord (scope_id sc) b)) (b # bs))
                 @ tail))"
proof
  from contentXml_sections [of rt scopeList resultMap st]
  show "\<exists>secs. contentXml rt scopeList resultMap st = Inr (concat secs)
      \<and> list_all2
            (\<lambda>sc x. buildScopeXml rt sc
                       (case resultMap (scope_id sc) of None \<Rightarrow> [] | Some bs \<Rightarrow> bs) st
                     = Inr x)
            scopeList secs"
    by (simp add: findings_def)
next
  from buildScopeXml_ordered [of rt sc st] obtain head tail where
    sec: "\<And>b bs. buildScopeXml rt sc (b # bs) st
            = Inr (head @ concat (map (recordXml (scope_id sc) st) (b # bs)) @ tail)"
    by blast
  from record_frame [of "scope_id sc" st] obtain frame where
    "\<And>b. recordXml (scope_id sc) st b = fillFrame frame (parsedRecord (scope_id sc) b)"
    by blast
  then have "recordXml (scope_id sc) st = (\<lambda>b. fillFrame frame (parsedRecord (scope_id sc) b))"
    by (intro ext)
  with sec show "\<exists>head frame tail. \<forall>b bs. buildScopeXml rt sc (b # bs) st
          = Inr (head
                 @ concat (map (\<lambda>b. fillFrame frame (parsedRecord (scope_id sc) b)) (b # bs))
                 @ tail)"
    by metis
qed

end
